theory Spec2Isabelle
  imports Main
begin

section \<open>Python values, exceptions and library functions\<close>

text \<open>
  A Python \<open>str\<close> is modelled as the list of its characters (\<open>string\<close>); slicing and
  \<open>join\<close> work on characters. Every literal of the source is ASCII.

  Exceptions are values. Only subclasses of \<open>Exception\<close> are modelled, since these are
  what the \<open>except Exception\<close> clauses of the source catch. \<open>str_exn\<close> is Python's
  \<open>str(e)\<close>: the message for \<open>Exception\<close> and \<open>TypeError\<close>, the quoted key for
  \<open>KeyError\<close> (the keys the source looks up are plain identifiers).
\<close>

datatype exn = Exception string | KeyError string | TypeError string

fun str_exn :: "exn \<Rightarrow> string" where
  "str_exn (Exception m) = m"
| "str_exn (KeyError k) = [CHR 0x27] @ k @ [CHR 0x27]"
| "str_exn (TypeError m) = m"

text \<open>
  The value \<open>json.loads\<close> returns: \<open>None\<close>, a bool, an int, a float (kept as its
  \<open>repr\<close>), a str, a list, or a dict, whose items are kept in order.
\<close>

datatype json =
    JNull
  | JBool bool
  | JInt int
  | JFloat string
  | JStr string
  | JArr "json list"
  | JObj "(string \<times> json) list"

text \<open>
  The functions of the Python runtime and standard library that the agent calls and that
  are not code of the repository: \<open>json.dumps\<close>, \<open>json.loads\<close>, \<open>str\<close> on a value
  that is not a \<open>str\<close>, and the messages of the \<open>TypeError\<close> raised by subscripting a
  value that is not a dict and by iterating a value that is not iterable.
\<close>

record py_runtime =
  json_dumps :: "json \<Rightarrow> string"
  json_loads :: "string \<Rightarrow> exn + json"
  str_of :: "json \<Rightarrow> string"
  subscript_error :: "json \<Rightarrow> string"
  iter_error :: "json \<Rightarrow> string"

text \<open>\<open>f'{v}'\<close>: a \<open>str\<close> is inserted as it is, any other value through \<open>str\<close>.\<close>

definition py_format :: "py_runtime \<Rightarrow> json \<Rightarrow> string" where
  "py_format rt v = (case v of JStr s \<Rightarrow> s | _ \<Rightarrow> str_of rt v)"

text \<open>\<open>v[key]\<close> with a \<open>str\<close> key.\<close>

definition py_getitem :: "py_runtime \<Rightarrow> json \<Rightarrow> string \<Rightarrow> exn + json" where
  "py_getitem rt v key =
     (case v of
        JObj items \<Rightarrow>
          (case map_of items key of
             Some x \<Rightarrow> Inr x
           | None \<Rightarrow> Inl (KeyError key))
      | _ \<Rightarrow> Inl (TypeError (subscript_error rt v)))"

text \<open>
  \<open>for x in v\<close>: the elements of a list, the characters of a \<open>str\<close>, the keys of a
  dict; any other value is not iterable.
\<close>

definition py_iter :: "py_runtime \<Rightarrow> json \<Rightarrow> exn + json list" where
  "py_iter rt v =
     (case v of
        JArr xs \<Rightarrow> Inr xs
      | JStr s \<Rightarrow> Inr (map (\<lambda>c. JStr [c]) s)
      | JObj items \<Rightarrow> Inr (map (\<lambda>(k, x). JStr k) items)
      | _ \<Rightarrow> Inl (TypeError (iter_error rt v)))"

text \<open>\<open>sep.join(parts)\<close>.\<close>

fun join :: "string \<Rightarrow> string list \<Rightarrow> string" where
  "join sep [] = []"
| "join sep [x] = x"
| "join sep (x # y # ys) = x @ sep @ join sep (y # ys)"

section \<open>The session sink\<close>

text \<open>
  Modelled from the spec: the session sink of \<open>director.core.session\<close>, which the
  agent imports and which is not among the sources. The content object has a mutable text,
  status and status message (and the agent name the constructor is given); the status is
  one of progress, success and error. The output message holds a log of actions and a
  list of content; appending to them, flushing (\<open>push_update\<close>) and publishing
  (\<open>publish\<close>) do not raise. The field \<open>text\<close> of the content object is
  \<open>text_value\<close> here.
\<close>

datatype MsgStatus = progress | success | error

record text_content =
  agent_name :: string
  status :: MsgStatus
  status_message :: string
  text_value :: string

text \<open>
  Everything the agent does to its surroundings is recorded in order: a flush of the
  output message (\<open>push_update\<close>) and its publication (\<open>publish\<close>), each with the
  actions and the content the message holds at that moment, every call of a method of the
  video tool or of the LLM (its name and arguments), and every log record.
\<close>

datatype event =
    Push_update "string list" "text_content list"
  | Publish "string list" "text_content list"
  | Call string "string list"
  | Log_warning string
  | Log_exception string

text \<open>
  The state an invocation works on: the state \<open>world\<close> of the external services, the
  two lists of \<open>self.output_message\<close>, and the record of events.
\<close>

record 'w state =
  world :: 'w
  actions :: "string list"
  content :: "text_content list"
  events :: "event list"

definition actions_append :: "string \<Rightarrow> 'w state \<Rightarrow> 'w state" where
  "actions_append a s = s\<lparr>actions := actions s @ [a]\<rparr>"

definition content_append :: "text_content \<Rightarrow> 'w state \<Rightarrow> 'w state" where
  "content_append c s = s\<lparr>content := content s @ [c]\<rparr>"

definition push_update :: "'w state \<Rightarrow> 'w state" where
  "push_update s = s\<lparr>events := events s @ [Push_update (actions s) (content s)]\<rparr>"

definition publish :: "'w state \<Rightarrow> 'w state" where
  "publish s = s\<lparr>events := events s @ [Publish (actions s) (content s)]\<rparr>"

definition logger_warning :: "string \<Rightarrow> 'w state \<Rightarrow> 'w state" where
  "logger_warning m s = s\<lparr>events := events s @ [Log_warning m]\<rparr>"

definition logger_exception :: "string \<Rightarrow> 'w state \<Rightarrow> 'w state" where
  "logger_exception m s = s\<lparr>events := events s @ [Log_exception m]\<rparr>"

text \<open>
  A call of an external method: it is recorded, and it may change the state of the
  external services and return or raise.
\<close>

definition call ::
  "event \<Rightarrow> ('w \<Rightarrow> (exn + 'a) \<times> 'w) \<Rightarrow> 'w state \<Rightarrow> (exn + 'a) \<times> 'w state" where
  "call ev f s =
     (case f (world s) of
        (r, w') \<Rightarrow> (r, s\<lparr>world := w', events := events s @ [ev]\<rparr>))"

text \<open>Sequencing of two steps, the second skipped when the first raises.\<close>

definition bind_ex ::
  "('s \<Rightarrow> (exn + 'a) \<times> 's) \<Rightarrow> ('a \<Rightarrow> 's \<Rightarrow> (exn + 'b) \<times> 's) \<Rightarrow> 's \<Rightarrow> (exn + 'b) \<times> 's" where
  "bind_ex m f s =
     (case m s of
        (Inl e, s') \<Rightarrow> (Inl e, s')
      | (Inr x, s') \<Rightarrow> f x s')"

section \<open>The agent interface (spielberg/agents/base.py)\<close>

definition AgentResult_SUCCESS :: string where
  "AgentResult_SUCCESS = ''success''"

definition AgentResult_ERROR :: string where
  "AgentResult_ERROR = ''error''"

record AgentResponse =
  result :: string
  message :: string
  data :: "(string \<times> json) list"

text \<open>
  \<open>BaseAgent.safe_call\<close>. The abstract \<open>__call__\<close> of the agent is the parameter
  \<open>call_agent\<close>; \<open>name\<close> is \<open>self.agent_name\<close>.
\<close>

definition safe_call ::
  "string \<Rightarrow> ('a \<Rightarrow> 'w state \<Rightarrow> (exn + AgentResponse) \<times> 'w state) \<Rightarrow> 'a \<Rightarrow> 'w state
     \<Rightarrow> AgentResponse \<times> 'w state" where
  "safe_call name call_agent args s =
     (case call_agent args s of
        (Inr r, s') \<Rightarrow> (r, s')
      | (Inl e, s') \<Rightarrow>
          (\<lparr>result = AgentResult_ERROR, message = str_exn e, data = []\<rparr>,
           logger_exception (''error in '' @ name @ '' agent: '' @ str_exn e) s'))"

section \<open>The external services of the hook template agent\<close>

text \<open>
  Modelled from the spec: the video tool of \<open>director.tools.videodb_tool\<close> and the
  LLM of \<open>director.llm\<close>, which are not among the sources, typed as the
  specification types their methods: a transcript is a
  \<open>str\<close>, a scene index is named by its \<open>scene_index_id\<close>, a scene carries a
  textual \<open>description\<close>, and \<open>index_scene\<close> returns the new scene index or nothing.
  Every method may raise, and may change the state of the service.
\<close>

record scene_index =
  scene_index_id :: string

record scene =
  description :: string

record 'w VideoDBTool =
  get_transcript :: "string \<Rightarrow> 'w \<Rightarrow> (exn + string) \<times> 'w"
  index_spoken_words :: "string \<Rightarrow> 'w \<Rightarrow> (exn + unit) \<times> 'w"
  list_scene_index :: "string \<Rightarrow> 'w \<Rightarrow> (exn + scene_index list) \<times> 'w"
  get_scene_index :: "string \<Rightarrow> string \<Rightarrow> 'w \<Rightarrow> (exn + scene list) \<times> 'w"
  index_scene :: "string \<Rightarrow> 'w \<Rightarrow> (exn + scene_index option) \<times> 'w"

record llm_response =
  llm_status :: bool
  llm_content :: string

text \<open>
  What surrounds one invocation: the constructor of the content object, which raises
  \<open>TextContent_fault\<close> if that is set and otherwise builds the object with the given
  fields and the default text; the constructor of the video tool for a collection; the
  chat completion of the LLM, as a function of the prompt; and the Python runtime.
\<close>

record 'w env =
  TextContent_fault :: "exn option"
  TextContent_default_text :: string
  VideoDBTool_init :: "string \<Rightarrow> 'w \<Rightarrow> (exn + 'w VideoDBTool) \<times> 'w"
  chat_completions :: "string \<Rightarrow> 'w \<Rightarrow> (exn + llm_response) \<times> 'w"
  py :: py_runtime

definition TextContent :: "'w env \<Rightarrow> string \<Rightarrow> MsgStatus \<Rightarrow> string \<Rightarrow> exn + text_content" where
  "TextContent E name st msg =
     (case TextContent_fault E of
        Some e \<Rightarrow> Inl e
      | None \<Rightarrow>
          Inr \<lparr>agent_name = name, status = st, status_message = msg,
               text_value = TextContent_default_text E\<rparr>)"

text \<open>
  Modelled from the spec: the \<open>AgentResponse\<close> and \<open>AgentStatus\<close> of
  \<open>director.agents.base\<close>, which the hook template agent imports and which are not
  among the sources: a status (SUCCESS or ERROR), a message, and a data mapping, empty
  when the constructor is given none (as in \<open>spielberg/agents/base.py\<close>). The
  fields \<open>status\<close>, \<open>message\<close> and \<open>data\<close> carry the prefix \<open>resp_\<close>,
  the fields of the LLM reply the prefix \<open>llm_\<close>: the content object and the response
  of the agent interface have fields of the same names.
\<close>

datatype AgentStatus = SUCCESS | ERROR

record DirectorAgentResponse =
  resp_status :: AgentStatus
  resp_message :: string
  resp_data :: "(string \<times> json) list"

section \<open>The hook template agent (director/agents/hook_template.py)\<close>

definition hook_template :: string where
  "hook_template = ''hook_template''"

text \<open>\<open>HookTemplateAgent._get_transcript\<close>, lines 40 to 51.\<close>

definition agent_get_transcript ::
  "'w VideoDBTool \<Rightarrow> string \<Rightarrow> 'w state \<Rightarrow> (exn + string) \<times> 'w state" where
  "agent_get_transcript tool video_id s =
     (let s1 = push_update (actions_append ''Processing video transcript...'' s) in
      case call (Call ''get_transcript'' [video_id]) (get_transcript tool video_id) s1 of
        (Inr transcript_text, s2) \<Rightarrow> (Inr transcript_text, s2)
      | (Inl e, s2) \<Rightarrow>
          (let s3 = push_update (actions_append ''Indexing video speech...'' s2) in
           bind_ex
             (call (Call ''index_spoken_words'' [video_id]) (index_spoken_words tool video_id))
             (\<lambda>_. call (Call ''get_transcript'' [video_id]) (get_transcript tool video_id))
             s3))"

text \<open>
  \<open>HookTemplateAgent._get_scenes\<close>, lines 53 to 76. The result is \<open>None\<close> or the
  scene list the tool returned. Only the creation of a scene index is inside the
  \<open>try\<close>; listing the indexes and fetching an index that was listed are not.
\<close>

definition agent_get_scenes ::
  "'w VideoDBTool \<Rightarrow> string \<Rightarrow> 'w state \<Rightarrow> (exn + scene list option) \<times> 'w state" where
  "agent_get_scenes tool video_id s =
     (let s1 = push_update (actions_append ''Analyzing video scenes...'' s) in
      case call (Call ''list_scene_index'' [video_id]) (list_scene_index tool video_id) s1 of
        (Inl e, s2) \<Rightarrow> (Inl e, s2)
      | (Inr scene_list, s2) \<Rightarrow>
          if scene_list \<noteq> [] then
            (let scene_index_id = scene_index_id (scene_list ! 0) in
             case call (Call ''get_scene_index'' [video_id, scene_index_id])
                    (get_scene_index tool video_id scene_index_id) s2 of
               (Inl e, s3) \<Rightarrow> (Inl e, s3)
             | (Inr scenes, s3) \<Rightarrow> (Inr (Some scenes), s3))
          else
            (let s3 = push_update
                        (actions_append ''Scene index not found. Creating scene index...'' s2) in
             case call (Call ''index_scene'' [video_id]) (index_scene tool video_id) s3 of
               (Inl e, s4) \<Rightarrow>
                 (Inr None, logger_warning (''Error creating scene index: '' @ str_exn e) s4)
             | (Inr None, s4) \<Rightarrow>
                 (Inr None, logger_warning ''Failed to create scene index'' s4)
             | (Inr (Some scene_index), s4) \<Rightarrow>
                 (case call (Call ''get_scene_index'' [video_id, scene_index_id scene_index])
                         (get_scene_index tool video_id (scene_index_id scene_index)) s4 of
                    (Inl e, s5) \<Rightarrow>
                      (Inr None, logger_warning (''Error creating scene index: '' @ str_exn e) s5)
                  | (Inr scenes, s5) \<Rightarrow> (Inr (Some scenes), s5))))"

text \<open>
  The prompt of lines 106 to 144. The four constants are the literal text of the
  f-string around its three replacement fields.
\<close>

definition llm_prompt_intro :: string where
  \<open>llm_prompt_intro =
     ''\<newline>'' @
     ''            You are an expert video editor. Create an engaging hook template by analyzing this content carefully.\<newline>'' @
     ''            Focus on capturing specific quotes and insights that will grab attention.\<newline>'' @
     ''\<newline>'' @
     ''            User's Intent: ''\<close>

definition llm_prompt_analysis :: string where
  \<open>llm_prompt_analysis =
     ''\<newline>'' @
     ''            \<newline>'' @
     ''            Content Analysis:\<newline>'' @
     ''            1. Find the most attention-grabbing quote or insight from the first minute\<newline>'' @
     ''            2. Identify the core message or surprising statement\<newline>'' @
     ''            3. Note the exact visual setting and speaker dynamics\<newline>'' @
     ''            4. Match the actual energy and style of the conversation\<newline>'' @
     ''            \<newline>'' @
     ''            Content to Analyze:\<newline>'' @
     ''            Transcript: ''\<close>

definition llm_prompt_scenes :: string where
  \<open>llm_prompt_scenes =
     ''\<newline>'' @
     ''            Scenes: ''\<close>

definition llm_prompt_instructions :: string where
  \<open>llm_prompt_instructions =
     ''\<newline>'' @
     ''            \<newline>'' @
     ''            Create a JSON response with:\<newline>'' @
     ''            {\<newline>'' @
     ''                "script": "Hook script that uses an actual quote or insight from the video",\<newline>'' @
     ''                "visuals": [\<newline>'' @
     ''                    "IMPORTANT: Only describe scenes that are explicitly mentioned in the transcript or scene descriptions.",\<newline>'' @
     ''                    "Do not invent or add scenes that aren't in the source material.",\<newline>'' @
     ''                    "Focus on the podcast studio setting and speaker interactions"\<newline>'' @
     ''                ],\<newline>'' @
     ''                "transitions": "Simple, clean transitions that match the professional studio setting",\<newline>'' @
     ''                "music": "Subtle background music that won't overshadow the conversation",\<newline>'' @
     ''                "sound_effects": "Minimal to none - only if absolutely necessary for the studio setting",\<newline>'' @
     ''                "pacing": "Match the natural rhythm of the actual conversation"\<newline>'' @
     ''            }\<newline>'' @
     ''\<newline>'' @
     ''            IMPORTANT GUIDELINES:\<newline>'' @
     ''            1. Only use visual elements that are explicitly present in the video\<newline>'' @
     ''            2. Avoid imagined or additional scenes not in the source material\<newline>'' @
     ''            3. Keep the focus on the actual studio conversation\<newline>'' @
     ''            4. Minimize unnecessary sound effects\<newline>'' @
     ''            5. Maintain the authentic podcast atmosphere\<newline>'' @
     ''\<newline>'' @
     ''            The hook script should incorporate real quotes or insights from the video to make it authentic and engaging.\<newline>'' @
     ''            ''\<close>


text \<open>\<open>if scenes\<close>: neither \<open>None\<close> nor an empty list.\<close>

fun truthy_scenes :: "scene list option \<Rightarrow> bool" where
  "truthy_scenes None = False"
| "truthy_scenes (Some []) = False"
| "truthy_scenes (Some (x # xs)) = True"

definition llm_prompt :: "py_runtime \<Rightarrow> string \<Rightarrow> string \<Rightarrow> scene list option \<Rightarrow> string" where
  "llm_prompt rt prompt transcript scenes =
     llm_prompt_intro @ prompt @
     llm_prompt_analysis @
       (if transcript \<noteq> [] then take 1000 transcript else ''No transcript available'') @
     llm_prompt_scenes @
       (if truthy_scenes scenes
        then json_dumps rt (JArr (map (\<lambda>scene. JStr (description scene)) (take 5 (the scenes))))
        else ''No scenes available'') @
     llm_prompt_instructions"

text \<open>
  The template of lines 160 to 176. The replacement fields are evaluated from left to
  right, and the first one that raises ends the rendering.
\<close>

definition and_then :: "exn + 'a \<Rightarrow> ('a \<Rightarrow> exn + 'b) \<Rightarrow> exn + 'b" where
  "and_then r f = (case r of Inl e \<Rightarrow> Inl e | Inr x \<Rightarrow> f x)"

definition format_field :: "py_runtime \<Rightarrow> json \<Rightarrow> string \<Rightarrow> exn + string" where
  "format_field rt template_data key =
     and_then (py_getitem rt template_data key) (\<lambda>v. Inr (py_format rt v))"

definition format_visuals :: "py_runtime \<Rightarrow> json \<Rightarrow> exn + string" where
  "format_visuals rt template_data =
     and_then (py_getitem rt template_data ''visuals'') (\<lambda>visuals.
     and_then (py_iter rt visuals) (\<lambda>vs.
       Inr (join [CHR 10] (map (\<lambda>visual. ''- '' @ py_format rt visual) vs))))"

definition render_template :: "py_runtime \<Rightarrow> json \<Rightarrow> exn + string" where
  \<open>render_template rt template_data =
     and_then (format_field rt template_data ''script'') (\<lambda>script.
     and_then (format_visuals rt template_data) (\<lambda>visuals.
     and_then (format_field rt template_data ''transitions'') (\<lambda>transitions.
     and_then (format_field rt template_data ''music'') (\<lambda>music.
     and_then (format_field rt template_data ''sound_effects'') (\<lambda>sound_effects.
     and_then (format_field rt template_data ''pacing'') (\<lambda>pacing.
       Inr (''\<newline>'' @
            ''Hook Script:\<newline>'' @
            ''"'' @ script @ ''"\<newline>'' @
            ''\<newline>'' @
            ''Visual Elements:\<newline>'' @
            visuals @ ''\<newline>'' @
            ''\<newline>'' @
            ''Transitions:\<newline>'' @
            transitions @ ''\<newline>'' @
            ''\<newline>'' @
            ''Audio:\<newline>'' @
            ''- Music: '' @ music @ ''\<newline>'' @
            ''- Sound Effects: '' @ sound_effects @ ''\<newline>'' @
            ''\<newline>'' @
            ''Pacing:\<newline>'' @
            pacing @ ''\<newline>'' @
            ''            '')))))))\<close>

text \<open>
  Assignment to the fields of the content object. The object is the one appended to
  \<open>self.output_message.content\<close> at line 95; \<open>i\<close> is its place in that list.
\<close>

definition set_success :: "nat \<Rightarrow> string \<Rightarrow> 'w state \<Rightarrow> 'w state" where
  "set_success i template s =
     s\<lparr>content := (content s)[i := (content s ! i)
          \<lparr>status := success,
           status_message := ''Hook template generated successfully'',
           text_value := template\<rparr>]\<rparr>"

definition set_error :: "nat \<Rightarrow> exn \<Rightarrow> 'w state \<Rightarrow> 'w state" where
  "set_error i e s =
     s\<lparr>content := (content s)[i := (content s ! i)
          \<lparr>status := error,
           status_message := ''Error generating hook template: '' @ str_exn e\<rparr>]\<rparr>"

text \<open>Lines 99 to 103 of \<open>run\<close>: the tool is built, then transcript and scenes are fetched.\<close>

definition run_acquire ::
  "'w env \<Rightarrow> string \<Rightarrow> string \<Rightarrow> 'w state \<Rightarrow> (exn + string \<times> scene list option) \<times> 'w state" where
  "run_acquire E video_id collection_id =
     bind_ex (call (Call ''VideoDBTool'' [collection_id]) (VideoDBTool_init E collection_id))
       (\<lambda>videodb_tool.
     bind_ex (agent_get_transcript videodb_tool video_id)
       (\<lambda>transcript.
     bind_ex (agent_get_scenes videodb_tool video_id)
       (\<lambda>scenes s. (Inr (transcript, scenes), s))))"

text \<open>Lines 106 to 188 of \<open>run\<close>: the prompt, the LLM, the template and the success.\<close>

definition run_generate ::
  "'w env \<Rightarrow> nat \<Rightarrow> string \<Rightarrow> string \<Rightarrow> scene list option \<Rightarrow> 'w state
     \<Rightarrow> (exn + DirectorAgentResponse) \<times> 'w state" where
  "run_generate E i prompt transcript scenes s =
     (let p = llm_prompt (py E) prompt transcript scenes;
          s1 = push_update (actions_append ''Generating hook template...'' s) in
      case call (Call ''chat_completions'' [p]) (chat_completions E p) s1 of
        (Inl e, s2) \<Rightarrow> (Inl e, s2)
      | (Inr llm_response, s2) \<Rightarrow>
          if \<not> llm_status llm_response
          then (Inl (Exception ''Failed to generate hook template''), s2)
          else
            (case json_loads (py E) (llm_content llm_response) of
               Inl e \<Rightarrow> (Inl e, s2)
             | Inr template_data \<Rightarrow>
                 (case render_template (py E) template_data of
                    Inl e \<Rightarrow> (Inl e, s2)
                  | Inr template \<Rightarrow>
                      (Inr \<lparr>resp_status = SUCCESS,
                            resp_message = ''Agent '' @ hook_template @ '' completed successfully.'',
                            resp_data = [(''template'', JStr template)]\<rparr>,
                       publish (set_success i template s2)))))"

text \<open>The body of the \<open>try\<close> after the content object is built, lines 95 to 188.\<close>

definition run_try ::
  "'w env \<Rightarrow> text_content \<Rightarrow> string \<Rightarrow> string \<Rightarrow> string \<Rightarrow> 'w state
     \<Rightarrow> (exn + DirectorAgentResponse) \<times> 'w state" where
  "run_try E text_content video_id collection_id prompt s =
     (let i = length (content s);
          s1 = push_update (content_append text_content s) in
      bind_ex (run_acquire E video_id collection_id)
        (\<lambda>(transcript, scenes). run_generate E i prompt transcript scenes) s1)"

text \<open>
  The \<open>except\<close> clause, lines 190 to 199. \<open>text_content\<close> is the place of the content
  object, or \<open>None\<close> when the name is not among the locals.
\<close>

definition run_except :: "nat option \<Rightarrow> exn \<Rightarrow> 'w state \<Rightarrow> DirectorAgentResponse \<times> 'w state" where
  "run_except text_content e s =
     (let s1 = logger_exception (''Error in '' @ hook_template) s;
          s2 = (case text_content of
                  Some i \<Rightarrow> publish (set_error i e s1)
                | None \<Rightarrow> s1) in
      (\<lparr>resp_status = ERROR,
        resp_message = ''Agent failed with error: '' @ str_exn e,
        resp_data = []\<rparr>, s2))"

text \<open>\<open>HookTemplateAgent.run\<close>, lines 78 to 199.\<close>

definition run ::
  "'w env \<Rightarrow> string \<Rightarrow> string \<Rightarrow> string \<Rightarrow> 'w state \<Rightarrow> DirectorAgentResponse \<times> 'w state" where
  "run E video_id collection_id prompt s =
     (case TextContent E hook_template progress ''Analyzing video content...'' of
        Inl e \<Rightarrow> run_except None e s
      | Inr text_content \<Rightarrow>
          (case run_try E text_content video_id collection_id prompt s of
             (Inr response, s') \<Rightarrow> (response, s')
           | (Inl e, s') \<Rightarrow> run_except (Some (length (content s))) e s'))"

section \<open>Traces\<close>

text \<open>
  The events an execution adds to the record, and among them the publications of the
  output message: the terminal notifications of an invocation. A flush of the output
  message is a progress message for the content \<open>c\<close> when \<open>c\<close> is the content it
  shows; \<open>progress_event c\<close> holds of such a flush, of a call and of a log record, and
  of no publication. An execution is quiet when it leaves the content alone, publishes
  nothing, and every flush it makes shows the content as it was.
\<close>

fun is_publish :: "event \<Rightarrow> bool" where
  "is_publish (Publish a c) = True"
| "is_publish _ = False"

definition new_events :: "'w state \<Rightarrow> 'w state \<Rightarrow> event list" where
  "new_events s s' = drop (length (events s)) (events s')"

definition terminal_messages :: "'w state \<Rightarrow> 'w state \<Rightarrow> event list" where
  "terminal_messages s s' = filter is_publish (new_events s s')"

fun progress_event :: "text_content list \<Rightarrow> event \<Rightarrow> bool" where
  "progress_event c (Push_update a c') = (c' = c)"
| "progress_event c (Publish a c') = False"
| "progress_event c (Call name args) = True"
| "progress_event c (Log_warning m) = True"
| "progress_event c (Log_exception m) = True"

definition quiet :: "'w state \<Rightarrow> 'w state \<Rightarrow> bool" where
  "quiet s s' \<longleftrightarrow>
     content s' = content s \<and>
     events s' = events s @ new_events s s' \<and>
     terminal_messages s s' = [] \<and>
     list_all (progress_event (content s)) (new_events s s')"

section \<open>The layout of the specification\<close>

text \<open>
  The rendered text template as the specification lays it out, line by line:
  \<open>Hook Script:\<close>, the script in double quotes, a blank line, \<open>Visual Elements:\<close>,
  the lines of the visuals, a blank line, \<open>Transitions:\<close> and the transitions, a
  blank line, \<open>Audio:\<close> with the music and the sound effects, a blank line,
  \<open>Pacing:\<close> and the pacing. \<open>hook_layout\<close> takes the lines of the visuals as
  they are; \<open>spec_layout\<close> is the layout of the specification, with one line
  \<open>- visual\<close> for each element of the visuals.
\<close>

definition hook_layout ::
  "string \<Rightarrow> string list \<Rightarrow> string \<Rightarrow> string \<Rightarrow> string \<Rightarrow> string \<Rightarrow> string" where
  \<open>hook_layout script visual_lines transitions music sound_effects pacing =
     join ''\<newline>''
       ([''Hook Script:'',
         ''"'' @ script @ ''"'',
         [],
         ''Visual Elements:''] @
        visual_lines @
        [[],
         ''Transitions:'',
         transitions,
         [],
         ''Audio:'',
         ''- Music: '' @ music,
         ''- Sound Effects: '' @ sound_effects,
         [],
         ''Pacing:'',
         pacing])\<close>

definition spec_layout ::
  "string \<Rightarrow> string list \<Rightarrow> string \<Rightarrow> string \<Rightarrow> string \<Rightarrow> string \<Rightarrow> string" where
  "spec_layout script visuals transitions music sound_effects pacing =
     hook_layout script (map (\<lambda>visual. ''- '' @ visual) visuals)
       transitions music sound_effects pacing"

section \<open>Example environments\<close>

text \<open>An agent that fails when its argument is negative, over a world without state.\<close>

definition picky_agent :: "int \<Rightarrow> unit state \<Rightarrow> (exn + AgentResponse) \<times> unit state" where
  "picky_agent n s =
     (if n < 0 then (Inl (Exception ''negative''), s)
      else (Inr \<lparr>result = AgentResult_SUCCESS, message = ''done'', data = []\<rparr>, s))"

definition idle :: "unit state" where
  "idle = \<lparr>world = (), actions = [], content = [], events = []\<rparr>"

definition demo_scenes :: "scene list" where
  "demo_scenes =
     [\<lparr>description = ''Two hosts in a podcast studio''\<rparr>,
      \<lparr>description = ''Close-up of the guest''\<rparr>]"

definition demo_tool ::
  "(nat \<Rightarrow> (exn + unit) \<times> nat) \<Rightarrow> (exn + scene_index list) \<Rightarrow> (exn + scene_index option)
     \<Rightarrow> (exn + scene list) \<Rightarrow> nat VideoDBTool" where
  "demo_tool indexing listing creation fetching =
     \<lparr>get_transcript = (\<lambda>video_id w.
        if w = 0 then (Inl (Exception ''no transcript''), w)
        else (Inr ''Welcome to the show'', w)),
      index_spoken_words = (\<lambda>video_id. indexing),
      list_scene_index = (\<lambda>video_id w. (listing, w)),
      get_scene_index = (\<lambda>video_id scene_index_id w. (fetching, w)),
      index_scene = (\<lambda>video_id w. (creation, w))\<rparr>"

definition demo_template_data :: json where
  "demo_template_data =
     JObj [(''script'', JStr ''Hooks win''),
           (''visuals'', JArr [JStr ''Two hosts'', JStr ''Guest laughs'']),
           (''transitions'', JStr ''Cuts''),
           (''music'', JStr ''Soft''),
           (''sound_effects'', JStr ''None''),
           (''pacing'', JStr ''Fast'')]"

definition demo_json :: string where
  \<open>demo_json =
     ''{"script": "Hooks win", "visuals": ["Two hosts", "Guest laughs"], '' @
     ''"transitions": "Cuts", "music": "Soft", "sound_effects": "None", "pacing": "Fast"}''\<close>

definition demo_py :: py_runtime where
  \<open>demo_py =
     \<lparr>json_dumps = (\<lambda>v. case v of
          JArr xs \<Rightarrow>
            ''['' @ join '', '' (map (\<lambda>x. case x of JStr s \<Rightarrow> ''"'' @ s @ ''"'' | _ \<Rightarrow> ''null'') xs) @ '']''
        | _ \<Rightarrow> ''null''),
      json_loads = (\<lambda>s.
        if s = demo_json then Inr demo_template_data
        else Inl (Exception ''Expecting value'')),
      str_of = (\<lambda>v. ''?''),
      subscript_error = (\<lambda>v. ''not subscriptable''),
      iter_error = (\<lambda>v. ''not iterable'')\<rparr>\<close>

definition demo_env :: "exn option \<Rightarrow> nat VideoDBTool \<Rightarrow> (exn + llm_response) \<Rightarrow> nat env" where
  "demo_env fault tool reply =
     \<lparr>TextContent_fault = fault,
      TextContent_default_text = [],
      VideoDBTool_init = (\<lambda>collection_id w. (Inr tool, w)),
      chat_completions = (\<lambda>prompt w. (reply, w)),
      py = demo_py\<rparr>"

definition good_reply :: "exn + llm_response" where
  "good_reply = Inr \<lparr>llm_status = True, llm_content = demo_json\<rparr>"

definition start :: "nat \<Rightarrow> nat state" where
  "start w = \<lparr>world = w, actions = [], content = [], events = []\<rparr>"

definition demo_template :: string where
  \<open>demo_template =
     ''\<newline>Hook Script:\<newline>"Hooks win"\<newline>\<newline>'' @
     ''Visual Elements:\<newline>- Two hosts\<newline>- Guest laughs\<newline>\<newline>'' @
     ''Transitions:\<newline>Cuts\<newline>\<newline>'' @
     ''Audio:\<newline>- Music: Soft\<newline>- Sound Effects: None\<newline>\<newline>'' @
     ''Pacing:\<newline>Fast\<newline>            ''\<close>

definition quota_tool :: "nat VideoDBTool" where
  "quota_tool = demo_tool (\<lambda>w. (Inr (), Suc w)) (Inr []) (Inl (Exception ''quota'')) (Inr [])"

definition indexed_tool :: "nat VideoDBTool" where
  "indexed_tool = demo_tool (\<lambda>w. (Inr (), Suc w)) (Inr []) (Inr None) (Inr [])"

definition silent_tool :: "nat VideoDBTool" where
  "silent_tool = demo_tool (\<lambda>w. (Inr (), w)) (Inr []) (Inr None) (Inr [])"

definition broken_tool :: "nat VideoDBTool" where
  "broken_tool =
     demo_tool (\<lambda>w. (Inl (Exception ''indexing failed''), w)) (Inr []) (Inr None) (Inr [])"


definition failed_reply :: "exn + llm_response" where
  "failed_reply = Inr \<lparr>llm_status = False, llm_content = []\<rparr>"

definition first_content :: text_content where
  "first_content =
     \<lparr>agent_name = ''hook_template'', status = progress,
      status_message = ''Analyzing video content...'', text_value = []\<rparr>"


definition good_env :: "nat env" where
  "good_env = demo_env None indexed_tool good_reply"

definition shuffled_template_data :: json where
  "shuffled_template_data =
     JObj [(''note'', JInt 7),
           (''pacing'', JStr ''Fast''),
           (''sound_effects'', JStr ''None''),
           (''music'', JStr ''Soft''),
           (''transitions'', JStr ''Cuts''),
           (''visuals'', JArr [JStr ''Two hosts'', JStr ''Guest laughs'']),
           (''script'', JStr ''Hooks win'')]"

definition six_scenes :: "scene list" where
  "six_scenes = demo_scenes @ demo_scenes @ demo_scenes"

section \<open>Auxiliary facts\<close>

lemmas sink_defs =
  actions_append_def content_append_def push_update_def publish_def
  logger_warning_def logger_exception_def call_def bind_ex_def

lemma quiet_refl: "quiet s s"
  by (simp add: quiet_def new_events_def terminal_messages_def)

lemma new_events_trans:
  assumes "events s' = events s @ new_events s s'" and "events s'' = events s' @ new_events s' s''"
  shows "new_events s s'' = new_events s s' @ new_events s' s''"
    and "events s'' = events s @ new_events s s''"
proof -
  have h: "events s'' = events s @ (new_events s s' @ new_events s' s'')"
    using assms by simp
  have "drop (length (events s)) (events s'') = new_events s s' @ new_events s' s''"
    by (subst h) simp
  then show n: "new_events s s'' = new_events s s' @ new_events s' s''"
    by (simp add: new_events_def [of s s''])
  show "events s'' = events s @ new_events s s''"
    unfolding n using h .
qed

lemma quiet_trans:
  assumes "quiet s s'" and "quiet s' s''"
  shows "quiet s s''"
proof -
  have e: "events s' = events s @ new_events s s'" "events s'' = events s' @ new_events s' s''"
    and c: "content s' = content s" "content s'' = content s'"
    and t: "filter is_publish (new_events s s') = []" "filter is_publish (new_events s' s'') = []"
    and p: "list_all (progress_event (content s)) (new_events s s')"
      "list_all (progress_event (content s')) (new_events s' s'')"
    using assms by (simp_all add: quiet_def terminal_messages_def)
  note n = new_events_trans [OF e]
  show ?thesis
    unfolding quiet_def terminal_messages_def n(1)
    using n(2) [unfolded n(1)] c t p by simp
qed

lemma quiet_agent_get_transcript:
  assumes "agent_get_transcript tool video_id s = (r, s')"
  shows "quiet s s'"
  using assms unfolding agent_get_transcript_def Let_def sink_defs
  by (auto simp: quiet_def new_events_def terminal_messages_def split: prod.splits sum.splits)

lemma quiet_agent_get_scenes:
  assumes "agent_get_scenes tool video_id s = (r, s')"
  shows "quiet s s'"
  using assms unfolding agent_get_scenes_def Let_def sink_defs
  by (auto simp: quiet_def new_events_def terminal_messages_def split: prod.splits sum.splits option.splits if_splits)

lemma quiet_run_acquire:
  assumes "run_acquire E video_id collection_id s = (r, s')"
  shows "quiet s s'"
proof -
  have c: "\<And>ev f (s::'w state) r s'. call (Call ev f) g s = (r, s') \<Longrightarrow> quiet s s'" for g :: "'w \<Rightarrow> (exn + 'w VideoDBTool) \<times> 'w"
    by (auto simp: sink_defs quiet_def new_events_def terminal_messages_def split: prod.splits)
  show ?thesis
    using assms unfolding run_acquire_def bind_ex_def
    by (auto split: prod.splits sum.splits
        dest!: c quiet_agent_get_transcript quiet_agent_get_scenes intro: quiet_trans)
qed


lemma run_generate_raises:
  assumes "run_generate E i prompt transcript scenes s = (Inl e, s')"
  shows "quiet s s'"
  using assms unfolding run_generate_def Let_def sink_defs
  by (auto simp: quiet_def new_events_def terminal_messages_def
      split: prod.splits sum.splits if_splits)

lemma run_generate_returns:
  assumes "run_generate E i prompt transcript scenes s = (Inr response, s')"
  shows "\<exists>reply w' template_data template.
           chat_completions E (llm_prompt (py E) prompt transcript scenes) (world s)
             = (Inr reply, w') \<and>
           llm_status reply \<and>
           json_loads (py E) (llm_content reply) = Inr template_data \<and>
           render_template (py E) template_data = Inr template \<and>
           response = \<lparr>resp_status = SUCCESS,
                        resp_message = ''Agent hook_template completed successfully.'',
                        resp_data = [(''template'', JStr template)]\<rparr> \<and>
           content s' = (content s)[i := (content s ! i)
                           \<lparr>status := success,
                            status_message := ''Hook template generated successfully'',
                            text_value := template\<rparr>] \<and>
           events s' = events s @ new_events s s' \<and>
           (\<exists>evs. new_events s s' = evs @ [Publish (actions s') (content s')] \<and>
                  filter is_publish evs = [] \<and>
                  list_all (progress_event (content s)) evs)"
  using assms unfolding run_generate_def Let_def sink_defs set_success_def hook_template_def
  by (auto simp: new_events_def split: prod.splits sum.splits if_splits)

lemma run_try_raises:
  assumes "run_try E tc video_id collection_id prompt s = (Inl e, s')"
  shows "content s' = content s @ [tc] \<and>
         events s' = events s @ new_events s s' \<and>
         terminal_messages s s' = [] \<and>
         list_all (progress_event (content s @ [tc])) (new_events s s')"
proof -
  let ?s1 = "push_update (content_append tc s)"
  have start: "quiet (content_append tc s) ?s1"
    by (simp add: quiet_def new_events_def terminal_messages_def sink_defs)
  have q: "quiet (content_append tc s) s'"
    using assms unfolding run_try_def Let_def bind_ex_def
    by (auto split: prod.splits sum.splits
        dest!: quiet_run_acquire run_generate_raises intro: quiet_trans [OF start] quiet_trans)
  then show ?thesis
    by (simp add: quiet_def new_events_def terminal_messages_def content_append_def)
qed


lemmas agent_defs =
  run_def run_try_def run_acquire_def run_generate_def run_except_def
  agent_get_transcript_def agent_get_scenes_def TextContent_def set_success_def set_error_def

lemmas demo_defs =
  demo_env_def demo_tool_def demo_py_def good_reply_def start_def demo_template_data_def

lemmas render_defs =
  render_template_def format_field_def format_visuals_def and_then_def
  py_getitem_def py_iter_def py_format_def

lemma demo_render: "render_template demo_py demo_template_data = Inr demo_template"
  by (simp add: render_defs demo_py_def demo_template_data_def demo_template_def)

lemmas tool_defs = demo_tool_def quota_tool_def indexed_tool_def silent_tool_def broken_tool_def


lemma run_try_returns:
  assumes "run_try E tc video_id collection_id prompt s = (Inr response, s')"
  shows "\<exists>template evs.
           response = \<lparr>resp_status = SUCCESS,
                        resp_message = ''Agent hook_template completed successfully.'',
                        resp_data = [(''template'', JStr template)]\<rparr> \<and>
           content s' = content s @ [tc\<lparr>status := success,
                            status_message := ''Hook template generated successfully'',
                            text_value := template\<rparr>] \<and>
           events s' = events s @ new_events s s' \<and>
           new_events s s' = evs @ [Publish (actions s') (content s')] \<and>
           filter is_publish evs = [] \<and>
           list_all (progress_event (content s @ [tc])) evs"
proof -
  let ?s0 = "content_append tc s"
  let ?s1 = "push_update ?s0"
  obtain transcript scenes s2 where
    acq: "run_acquire E video_id collection_id ?s1 = (Inr (transcript, scenes), s2)" and
    gen: "run_generate E (length (content s)) prompt transcript scenes s2 = (Inr response, s')"
    using assms unfolding run_try_def Let_def bind_ex_def
    by (auto split: prod.splits sum.splits)
  have start: "quiet ?s0 ?s1"
    by (simp add: quiet_def new_events_def terminal_messages_def sink_defs)
  have q: "quiet ?s0 s2"
    using quiet_trans [OF start quiet_run_acquire [OF acq]] .
  from run_generate_returns [OF gen] obtain template evs where
    r: "response = \<lparr>resp_status = SUCCESS,
                        resp_message = ''Agent hook_template completed successfully.'',
                        resp_data = [(''template'', JStr template)]\<rparr>" and
    c: "content s' = (content s2)[length (content s) := (content s2 ! length (content s))
                           \<lparr>status := success,
                            status_message := ''Hook template generated successfully'',
                            text_value := template\<rparr>]" and
    e: "events s' = events s2 @ new_events s2 s'" and
    n: "new_events s2 s' = evs @ [Publish (actions s') (content s')]" and
    f: "filter is_publish evs = []" and
    pe: "list_all (progress_event (content s2)) evs"
    by blast
  have c2: "content s2 = content s @ [tc]" and e2: "events s2 = events s @ new_events s s2"
    and t2: "filter is_publish (new_events s s2) = []"
    and p2: "list_all (progress_event (content s @ [tc])) (new_events s s2)"
    using q by (simp_all add: quiet_def content_append_def new_events_def terminal_messages_def)
  have "content s' = content s @ [tc\<lparr>status := success,
                            status_message := ''Hook template generated successfully'',
                            text_value := template\<rparr>]"
    using c c2 by simp
  moreover have "new_events s s' = (new_events s s2 @ evs) @ [Publish (actions s') (content s')]"
    using new_events_trans(1) [OF e2 e] n by simp
  moreover have "filter is_publish (new_events s s2 @ evs) = []"
    using t2 f by simp
  moreover have "list_all (progress_event (content s @ [tc])) (new_events s s2 @ evs)"
    using p2 pe c2 by simp
  ultimately show ?thesis
    using r new_events_trans(2) [OF e2 e] by blast
qed

lemma demo_TextContent:
  "TextContent (demo_env None tool reply) hook_template progress ''Analyzing video content...''
     = Inr first_content"
  by (simp add: TextContent_def demo_env_def first_content_def hook_template_def)

lemma demo_llm_failure:
  "fst (run_try (demo_env None indexed_tool failed_reply) first_content ''v1'' ''c1'' ''bold'' (start 1))
     = Inl (Exception ''Failed to generate hook template'')"
  by (simp add: run_try_def run_acquire_def run_generate_def agent_get_transcript_def
      agent_get_scenes_def sink_defs tool_defs demo_env_def failed_reply_def start_def)

lemma map_list_update_same:
  assumes "f y = f (xs ! i)"
  shows "map f (xs[i := y]) = map f xs"
proof (cases "i < length xs")
  case True
  then show ?thesis
    using assms by (simp add: map_update list_update_same_conv)
next
  case False
  then show ?thesis by (simp add: list_update_beyond)
qed


lemma join_Cons: "xs \<noteq> [] \<Longrightarrow> join sep (x # xs) = x @ sep @ join sep xs"
  by (cases xs) simp_all

lemma join_append:
  "xs \<noteq> [] \<Longrightarrow> ys \<noteq> [] \<Longrightarrow> join sep (xs @ ys) = join sep xs @ sep @ join sep ys"
proof (induction xs)
  case Nil
  then show ?case by simp
next
  case (Cons x xs)
  show ?case
  proof (cases "xs = []")
    case True
    with Cons.prems show ?thesis by (simp add: join_Cons)
  next
    case False
    with Cons show ?thesis by (simp add: join_Cons)
  qed
qed

lemma join_three:
  "A \<noteq> [] \<Longrightarrow> L \<noteq> [] \<Longrightarrow> B \<noteq> [] \<Longrightarrow>
   join sep (A @ L @ B) = join sep A @ sep @ join sep L @ sep @ join sep B"
  by (simp add: join_append)

lemma hook_layout_text:
  assumes "L \<noteq> []"
  shows \<open>hook_layout script L transitions music sound_effects pacing =
      ''Hook Script:\<newline>'' @ ''"'' @ script @ ''"\<newline>'' @
      ''\<newline>'' @ ''Visual Elements:\<newline>'' @ join ''\<newline>'' L @ ''\<newline>'' @
      ''\<newline>'' @ ''Transitions:\<newline>'' @ transitions @ ''\<newline>'' @
      ''\<newline>'' @ ''Audio:\<newline>'' @ ''- Music: '' @ music @ ''\<newline>'' @
      ''- Sound Effects: '' @ sound_effects @ ''\<newline>'' @
      ''\<newline>'' @ ''Pacing:\<newline>'' @ pacing\<close>
  unfolding hook_layout_def
  by (subst join_three) (simp_all add: assms)

lemma render_template_layout:
  assumes "render_template rt template_data = Inr template"
  shows "\<exists>script visuals transitions music sound_effects pacing.
           py_getitem rt template_data ''script'' = Inr script \<and>
           and_then (py_getitem rt template_data ''visuals'') (py_iter rt) = Inr visuals \<and>
           py_getitem rt template_data ''transitions'' = Inr transitions \<and>
           py_getitem rt template_data ''music'' = Inr music \<and>
           py_getitem rt template_data ''sound_effects'' = Inr sound_effects \<and>
           py_getitem rt template_data ''pacing'' = Inr pacing \<and>
           template =
             ''\<newline>'' @
             hook_layout (py_format rt script)
               (if visuals = [] then [[]]
                else map (\<lambda>visual. ''- '' @ py_format rt visual) visuals)
               (py_format rt transitions) (py_format rt music)
               (py_format rt sound_effects) (py_format rt pacing) @
             ''\<newline>            ''"
proof -
  from assms obtain script vs visuals transitions music sound_effects pacing where
    g: "py_getitem rt template_data ''script'' = Inr script"
       "py_getitem rt template_data ''visuals'' = Inr vs"
       "py_iter rt vs = Inr visuals"
       "py_getitem rt template_data ''transitions'' = Inr transitions"
       "py_getitem rt template_data ''music'' = Inr music"
       "py_getitem rt template_data ''sound_effects'' = Inr sound_effects"
       "py_getitem rt template_data ''pacing'' = Inr pacing"
    unfolding render_template_def format_field_def format_visuals_def and_then_def
    by (auto split: sum.splits)
  let ?lines = "if visuals = [] then [[]]
                else map (\<lambda>visual. ''- '' @ py_format rt visual) visuals"
  have v: "join [CHR 10] (map (\<lambda>visual. ''- '' @ py_format rt visual) visuals) = join [CHR 10] ?lines"
    by simp
  have ne: "?lines \<noteq> []"
    by simp
  have t: "template =
      ''\<newline>'' @ ''Hook Script:\<newline>'' @ [CHR 0x22] @ py_format rt script @ [CHR 0x22] @ ''\<newline>'' @
      ''\<newline>'' @ ''Visual Elements:\<newline>'' @ join [CHR 10] ?lines @ ''\<newline>'' @
      ''\<newline>'' @ ''Transitions:\<newline>'' @ py_format rt transitions @ ''\<newline>'' @
      ''\<newline>'' @ ''Audio:\<newline>'' @ ''- Music: '' @ py_format rt music @ ''\<newline>'' @
      ''- Sound Effects: '' @ py_format rt sound_effects @ ''\<newline>'' @
      ''\<newline>'' @ ''Pacing:\<newline>'' @ py_format rt pacing @ ''\<newline>'' @ ''            ''"
    using assms g unfolding render_template_def format_field_def format_visuals_def and_then_def v [symmetric]
    by simp
  have h: "template = ''\<newline>'' @
      hook_layout (py_format rt script) ?lines
               (py_format rt transitions) (py_format rt music)
               (py_format rt sound_effects) (py_format rt pacing) @ ''\<newline>            ''"
    unfolding t hook_layout_text [OF ne] by simp
  show ?thesis
    using g h unfolding and_then_def by simp
qed


lemma run_success:
  assumes "resp_status (fst (run E video_id collection_id prompt s)) = SUCCESS"
  shows "\<exists>tc transcript scenes s2 (reply :: llm_response) w3 template_data template.
           TextContent E hook_template progress ''Analyzing video content...'' = Inr tc \<and>
           run_acquire E video_id collection_id (push_update (content_append tc s))
             = (Inr (transcript, scenes), s2) \<and>
           chat_completions E (llm_prompt (py E) prompt transcript scenes) (world s2)
             = (Inr reply, w3) \<and>
           llm_status reply \<and>
           json_loads (py E) (llm_content reply) = Inr template_data \<and>
           render_template (py E) template_data = Inr template \<and>
           fst (run E video_id collection_id prompt s)
             = \<lparr>resp_status = SUCCESS,
                resp_message = ''Agent hook_template completed successfully.'',
                resp_data = [(''template'', JStr template)]\<rparr>"
proof (cases "TextContent E hook_template progress ''Analyzing video content...''")
  case (Inl e)
  with assms show ?thesis
    by (simp add: run_def run_except_def)
next
  case (Inr tc)
  obtain r s' where rt: "run_try E tc video_id collection_id prompt s = (r, s')"
    by (cases "run_try E tc video_id collection_id prompt s")
  show ?thesis
  proof (cases r)
    case (Inl e)
    with assms Inr rt show ?thesis
      by (simp add: run_def run_except_def)
  next
    case response: (Inr response)
    then obtain transcript scenes s2 where
      acq: "run_acquire E video_id collection_id (push_update (content_append tc s))
             = (Inr (transcript, scenes), s2)" and
      gen: "run_generate E (length (content s)) prompt transcript scenes s2 = (Inr response, s')"
      using rt unfolding run_try_def Let_def bind_ex_def
      by (auto split: prod.splits sum.splits)
    from run_generate_returns [OF gen] obtain reply :: llm_response and w3 template_data template
      where "chat_completions E (llm_prompt (py E) prompt transcript scenes) (world s2)
             = (Inr reply, w3)"
      "llm_status reply" "json_loads (py E) (llm_content reply) = Inr template_data"
      "render_template (py E) template_data = Inr template"
      "response = \<lparr>resp_status = SUCCESS,
                        resp_message = ''Agent hook_template completed successfully.'',
                        resp_data = [(''template'', JStr template)]\<rparr>"
      by blast
    moreover have "fst (run E video_id collection_id prompt s) = response"
      using Inr rt response by (simp add: run_def)
    ultimately show ?thesis using Inr acq by blast
  qed
qed

lemma demo_loads: "json_loads demo_py demo_json = Inr demo_template_data"
  by (simp add: demo_py_def)

lemma good_run:
  "fst (run good_env ''v1'' ''c1'' ''bold'' (start 1))
     = \<lparr>resp_status = SUCCESS,
        resp_message = ''Agent hook_template completed successfully.'',
        resp_data = [(''template'', JStr demo_template)]\<rparr>"
  by (simp add: agent_defs sink_defs good_env_def demo_env_def tool_defs good_reply_def
      start_def demo_loads demo_render hook_template_def)

section \<open>Scene acquisition\<close>

text \<open>
  C1, as amended. Let the content object and the video tool be built and the transcript
  be acquired (the first fetch returns, or it raises and indexing and the second fetch
  return). If listing the scene indexes returns an empty list, then every failure of the
  creation of a scene index is tolerated: \<open>index_scene\<close> raising, \<open>index_scene\<close>
  returning nothing, and the fetch of the created index raising. In each of these cases,
  provided the LLM replies with a success status and its reply parses and renders,
  \<open>run\<close> returns a response with status SUCCESS that carries the template, and the
  prompt sent to the LLM has \<open>No scenes available\<close> where the JSON array of scene
  descriptions would stand.

  The claim as stated covers a listing that raises as well. That call is outside the
  \<open>try\<close> of \<open>_get_scenes\<close>: its exception reaches the handler of \<open>run\<close>, and the
  response has status ERROR.
\<close>

theorem scene_creation_failure_tolerated:
  assumes "TextContent_fault E = None"
    and "VideoDBTool_init E collection_id (world s) = (Inr tool, w0)"
    and "get_transcript tool video_id w0 = (Inr transcript, w2) \<or>
         (\<exists>e w1 w1'. get_transcript tool video_id w0 = (Inl e, w1) \<and>
            index_spoken_words tool video_id w1 = (Inr (), w1') \<and>
            get_transcript tool video_id w1' = (Inr transcript, w2))"
    and "list_scene_index tool video_id w2 = (Inr [], w3)"
    and "(\<exists>e. index_scene tool video_id w3 = (Inl e, w4)) \<or>
         index_scene tool video_id w3 = (Inr None, w4) \<or>
         (\<exists>created w' e. index_scene tool video_id w3 = (Inr (Some created), w') \<and>
            get_scene_index tool video_id (scene_index_id created) w' = (Inl e, w4))"
    and "chat_completions E (llm_prompt (py E) prompt transcript None) w4 = (Inr reply, w5)"
    and "llm_status reply"
    and "json_loads (py E) (llm_content reply) = Inr template_data"
    and "render_template (py E) template_data = Inr template"
  shows "fst (run E video_id collection_id prompt s)
           = \<lparr>resp_status = SUCCESS,
              resp_message = ''Agent hook_template completed successfully.'',
              resp_data = [(''template'', JStr template)]\<rparr> \<and>
         Call ''chat_completions'' [llm_prompt (py E) prompt transcript None]
           \<in> set (events (snd (run E video_id collection_id prompt s))) \<and>
         llm_prompt (py E) prompt transcript None
           = llm_prompt_intro @ prompt @
             llm_prompt_analysis @
               (if transcript = [] then ''No transcript available'' else take 1000 transcript) @
             llm_prompt_scenes @ ''No scenes available'' @
             llm_prompt_instructions"
proof -
  let ?s1 = "push_update (content_append \<lparr>agent_name = hook_template, status = progress,
       status_message = ''Analyzing video content...'',
       text_value = TextContent_default_text E\<rparr> s)"
  obtain s2 where t: "agent_get_transcript tool video_id
      (?s1\<lparr>world := w0, events := events ?s1 @ [Call ''VideoDBTool'' [collection_id]]\<rparr>) = (Inr transcript, s2)"
    and w2: "world s2 = w2"
    using assms(3) unfolding agent_get_transcript_def Let_def sink_defs
    by (auto split: prod.splits sum.splits)
  obtain s3 where sc: "agent_get_scenes tool video_id s2 = (Inr None, s3)" and w4: "world s3 = w4"
    using assms(4,5) w2 unfolding agent_get_scenes_def Let_def sink_defs
    by (auto split: prod.splits sum.splits option.splits)
  have acq: "run_acquire E video_id collection_id ?s1 = (Inr (transcript, None), s3)"
    using assms(2) t sc unfolding run_acquire_def bind_ex_def call_def
    by (simp add: sink_defs)
  obtain s4 where gen: "run_generate E (length (content s)) prompt transcript None s3
      = (Inr \<lparr>resp_status = SUCCESS,
              resp_message = ''Agent hook_template completed successfully.'',
              resp_data = [(''template'', JStr template)]\<rparr>, s4)"
    and ev: "Call ''chat_completions'' [llm_prompt (py E) prompt transcript None] \<in> set (events s4)"
    using assms(6-9) w4 unfolding run_generate_def Let_def sink_defs set_success_def hook_template_def
    by (auto split: prod.splits sum.splits)
  have "run E video_id collection_id prompt s
      = (\<lparr>resp_status = SUCCESS,
              resp_message = ''Agent hook_template completed successfully.'',
              resp_data = [(''template'', JStr template)]\<rparr>, s4)"
    using assms(1) acq gen unfolding run_def run_try_def TextContent_def Let_def bind_ex_def
    by simp
  moreover have "llm_prompt (py E) prompt transcript None
           = llm_prompt_intro @ prompt @
             llm_prompt_analysis @
               (if transcript = [] then ''No transcript available'' else take 1000 transcript) @
             llm_prompt_scenes @ ''No scenes available'' @
             llm_prompt_instructions"
    by (simp add: llm_prompt_def)
  ultimately show ?thesis using ev by simp
qed

text \<open>
  An instance: the transcript is there, no scene index exists, and creating one fails
  for lack of quota.
\<close>

theorem scene_creation_failure_tolerated_witness:
  "fst (run (demo_env None quota_tool good_reply) ''v1'' ''c1'' ''bold'' (start 1))
     = \<lparr>resp_status = SUCCESS,
        resp_message = ''Agent hook_template completed successfully.'',
        resp_data = [(''template'', JStr demo_template)]\<rparr> \<and>
   Call ''chat_completions'' [llm_prompt demo_py ''bold'' ''Welcome to the show'' None]
     \<in> set (events (snd (run (demo_env None quota_tool good_reply) ''v1'' ''c1'' ''bold'' (start 1))))"
proof -
  let ?E = "demo_env None quota_tool good_reply"
  have 1: "TextContent_fault ?E = None"
    by (simp add: demo_env_def)
  have 2: "VideoDBTool_init ?E ''c1'' (world (start 1)) = (Inr quota_tool, 1)"
    by (simp add: demo_env_def start_def)
  have 3: "get_transcript quota_tool ''v1'' 1 = (Inr ''Welcome to the show'', 1) \<or>
         (\<exists>e w1 w1'. get_transcript quota_tool ''v1'' 1 = (Inl e, w1) \<and>
            index_spoken_words quota_tool ''v1'' w1 = (Inr (), w1') \<and>
            get_transcript quota_tool ''v1'' w1' = (Inr ''Welcome to the show'', 1))"
    by (simp add: quota_tool_def demo_tool_def)
  have 4: "list_scene_index quota_tool ''v1'' 1 = (Inr [], 1)"
    by (simp add: quota_tool_def demo_tool_def)
  have 5: "(\<exists>e. index_scene quota_tool ''v1'' 1 = (Inl e, 1)) \<or>
         index_scene quota_tool ''v1'' 1 = (Inr None, 1) \<or>
         (\<exists>created w' e. index_scene quota_tool ''v1'' 1 = (Inr (Some created), w') \<and>
            get_scene_index quota_tool ''v1'' (scene_index_id created) w' = (Inl e, 1))"
    by (simp add: quota_tool_def demo_tool_def)
  have 6: "chat_completions ?E (llm_prompt (py ?E) ''bold'' ''Welcome to the show'' None) 1
      = (Inr \<lparr>llm_status = True, llm_content = demo_json\<rparr>, 1)"
    by (simp add: demo_env_def good_reply_def)
  have 7: "llm_status \<lparr>llm_status = True, llm_content = demo_json\<rparr>"
    by simp
  have 8: "json_loads (py ?E) (llm_content \<lparr>llm_status = True, llm_content = demo_json\<rparr>)
      = Inr demo_template_data"
    by (simp add: demo_env_def demo_py_def)
  have 9: "render_template (py ?E) demo_template_data = Inr demo_template"
    using demo_render by (simp add: demo_env_def)
  have py: "py ?E = demo_py"
    by (simp add: demo_env_def)
  show ?thesis
    using scene_creation_failure_tolerated [OF 1 2 3 4 5 6 7 8 9]
    unfolding py by blast
qed

text \<open>
  The transcript is acquired, listing the scene indexes raises, and the invocation ends
  with status ERROR.
\<close>

theorem listing_failure_counterexample:
  "fst (agent_get_transcript
         (demo_tool (\<lambda>w. (Inr (), Suc w)) (Inl (Exception ''listing failed'')) (Inr None) (Inr []))
         ''v1'' (start 1)) = Inr ''Welcome to the show'' \<and>
   resp_status (fst (run (demo_env None
       (demo_tool (\<lambda>w. (Inr (), Suc w)) (Inl (Exception ''listing failed'')) (Inr None) (Inr []))
       good_reply) ''v1'' ''c1'' ''bold'' (start 1))) = ERROR"
  by (simp add: agent_defs sink_defs demo_defs)

section \<open>Transcript acquisition\<close>

text \<open>
  C2, as amended. Let the initial transcript fetch raise. The agent then emits the
  progress notification \<open>Indexing video speech...\<close> and triggers spoken-word indexing.
  If indexing returns, the fetch is retried exactly once, and the outcome of the retried
  fetch, its value or its exception, is the outcome of the sub-procedure. If indexing
  raises, that exception is the outcome and the fetch is not retried. When the initial
  and the retried fetch both raise, \<open>run\<close> returns a response with status ERROR, and
  the one terminal notification of the invocation carries the status \<open>error\<close>: no
  terminal success notification is emitted.

  The claim as stated has the fetch retried whenever the initial fetch raises; after an
  indexing that raises there is no retry.
\<close>

theorem transcript_single_shot_fallback:
  "(get_transcript tool video_id (world s) = (Inl e1, w1) \<and>
    index_spoken_words tool video_id w1 = (Inr (), w2) \<longrightarrow>
      fst (agent_get_transcript tool video_id s) = fst (get_transcript tool video_id w2) \<and>
      world (snd (agent_get_transcript tool video_id s)) = snd (get_transcript tool video_id w2) \<and>
      new_events s (snd (agent_get_transcript tool video_id s))
        = [Push_update (actions s @ [''Processing video transcript...'']) (content s),
           Call ''get_transcript'' [video_id],
           Push_update (actions s @ [''Processing video transcript...'',
                                     ''Indexing video speech...'']) (content s),
           Call ''index_spoken_words'' [video_id],
           Call ''get_transcript'' [video_id]]) \<and>
   (get_transcript tool video_id (world s) = (Inl e1, w1) \<and>
    index_spoken_words tool video_id w1 = (Inl e2, w2) \<longrightarrow>
      fst (agent_get_transcript tool video_id s) = Inl e2 \<and>
      new_events s (snd (agent_get_transcript tool video_id s))
        = [Push_update (actions s @ [''Processing video transcript...'']) (content s),
           Call ''get_transcript'' [video_id],
           Push_update (actions s @ [''Processing video transcript...'',
                                     ''Indexing video speech...'']) (content s),
           Call ''index_spoken_words'' [video_id]]) \<and>
   (TextContent_fault E = None \<and>
    VideoDBTool_init E collection_id (world s) = (Inr tool, w0) \<and>
    get_transcript tool video_id w0 = (Inl e1, w1) \<and>
    index_spoken_words tool video_id w1 = (Inr (), w2) \<and>
    get_transcript tool video_id w2 = (Inl e3, w3) \<longrightarrow>
      fst (run E video_id collection_id prompt s)
        = \<lparr>resp_status = ERROR,
           resp_message = ''Agent failed with error: '' @ str_exn e3,
           resp_data = []\<rparr> \<and>
      terminal_messages s (snd (run E video_id collection_id prompt s))
        = [Publish (actions s @ [''Processing video transcript...'', ''Indexing video speech...''])
             (content s @
              [\<lparr>agent_name = hook_template, status = error,
                status_message = ''Error generating hook template: '' @ str_exn e3,
                text_value = TextContent_default_text E\<rparr>])])"
proof (intro conjI impI)
  assume "get_transcript tool video_id (world s) = (Inl e1, w1) \<and>
    index_spoken_words tool video_id w1 = (Inr (), w2)"
  then have *: "agent_get_transcript tool video_id s
      = (fst (get_transcript tool video_id w2),
         s\<lparr>world := snd (get_transcript tool video_id w2),
           actions := actions s @ [''Processing video transcript...'', ''Indexing video speech...''],
           events := events s @
             [Push_update (actions s @ [''Processing video transcript...'']) (content s),
              Call ''get_transcript'' [video_id],
              Push_update (actions s @ [''Processing video transcript...'',
                                     ''Indexing video speech...'']) (content s),
              Call ''index_spoken_words'' [video_id],
              Call ''get_transcript'' [video_id]]\<rparr>)"
    unfolding agent_get_transcript_def Let_def sink_defs
    by (simp split: prod.splits)
  show "fst (agent_get_transcript tool video_id s) = fst (get_transcript tool video_id w2)"
    by (simp add: *)
  show "world (snd (agent_get_transcript tool video_id s)) = snd (get_transcript tool video_id w2)"
    by (simp add: *)
  show "new_events s (snd (agent_get_transcript tool video_id s))
        = [Push_update (actions s @ [''Processing video transcript...'']) (content s),
           Call ''get_transcript'' [video_id],
           Push_update (actions s @ [''Processing video transcript...'',
                                     ''Indexing video speech...'']) (content s),
           Call ''index_spoken_words'' [video_id],
           Call ''get_transcript'' [video_id]]"
    by (simp add: * new_events_def)
next
  assume "get_transcript tool video_id (world s) = (Inl e1, w1) \<and>
    index_spoken_words tool video_id w1 = (Inl e2, w2)"
  then have *: "agent_get_transcript tool video_id s
      = (Inl e2,
         s\<lparr>world := w2,
           actions := actions s @ [''Processing video transcript...'', ''Indexing video speech...''],
           events := events s @
             [Push_update (actions s @ [''Processing video transcript...'']) (content s),
              Call ''get_transcript'' [video_id],
              Push_update (actions s @ [''Processing video transcript...'',
                                     ''Indexing video speech...'']) (content s),
              Call ''index_spoken_words'' [video_id]]\<rparr>)"
    unfolding agent_get_transcript_def Let_def sink_defs
    by (simp split: prod.splits)
  show "fst (agent_get_transcript tool video_id s) = Inl e2"
    by (simp add: *)
  show "new_events s (snd (agent_get_transcript tool video_id s))
        = [Push_update (actions s @ [''Processing video transcript...'']) (content s),
           Call ''get_transcript'' [video_id],
           Push_update (actions s @ [''Processing video transcript...'',
                                     ''Indexing video speech...'']) (content s),
           Call ''index_spoken_words'' [video_id]]"
    by (simp add: * new_events_def)
next
  assume a: "TextContent_fault E = None \<and>
    VideoDBTool_init E collection_id (world s) = (Inr tool, w0) \<and>
    get_transcript tool video_id w0 = (Inl e1, w1) \<and>
    index_spoken_words tool video_id w1 = (Inr (), w2) \<and>
    get_transcript tool video_id w2 = (Inl e3, w3)"
  let ?tc = "\<lparr>agent_name = hook_template, status = progress,
       status_message = ''Analyzing video content...'',
       text_value = TextContent_default_text E\<rparr>"
  let ?acts = "actions s @ [''Processing video transcript...'', ''Indexing video speech...'']"
  have *: "run E video_id collection_id prompt s
      = (\<lparr>resp_status = ERROR,
           resp_message = ''Agent failed with error: '' @ str_exn e3,
           resp_data = []\<rparr>,
         s\<lparr>world := w3, actions := ?acts,
           content := content s @ [?tc\<lparr>status := error,
              status_message := ''Error generating hook template: '' @ str_exn e3\<rparr>],
           events := events s @
             [Push_update (actions s) (content s @ [?tc]),
              Call ''VideoDBTool'' [collection_id],
              Push_update (actions s @ [''Processing video transcript...'']) (content s @ [?tc]),
              Call ''get_transcript'' [video_id],
              Push_update ?acts (content s @ [?tc]),
              Call ''index_spoken_words'' [video_id],
              Call ''get_transcript'' [video_id],
              Log_exception (''Error in '' @ hook_template),
              Publish ?acts (content s @ [?tc\<lparr>status := error,
                 status_message := ''Error generating hook template: '' @ str_exn e3\<rparr>])]\<rparr>)"
    using a unfolding agent_defs Let_def sink_defs
    by (simp split: prod.splits)
  show "fst (run E video_id collection_id prompt s)
        = \<lparr>resp_status = ERROR,
           resp_message = ''Agent failed with error: '' @ str_exn e3,
           resp_data = []\<rparr>"
    by (simp add: *)
  show "terminal_messages s (snd (run E video_id collection_id prompt s))
        = [Publish ?acts
             (content s @
              [\<lparr>agent_name = hook_template, status = error,
                status_message = ''Error generating hook template: '' @ str_exn e3,
                text_value = TextContent_default_text E\<rparr>])]"
    by (simp add: * terminal_messages_def new_events_def)
qed


text \<open>
  Three instances: indexing makes the transcript available; indexing raises; indexing
  returns and the transcript is still missing.
\<close>

theorem transcript_single_shot_fallback_witness:
  "fst (agent_get_transcript indexed_tool ''v1'' (start 0)) = Inr ''Welcome to the show'' \<and>
   fst (agent_get_transcript broken_tool ''v1'' (start 0)) = Inl (Exception ''indexing failed'') \<and>
   fst (run (demo_env None silent_tool good_reply) ''v1'' ''c1'' ''bold'' (start 0))
     = \<lparr>resp_status = ERROR,
        resp_message = ''Agent failed with error: no transcript'',
        resp_data = []\<rparr>"
proof -
  have a: "get_transcript indexed_tool ''v1'' (world (start 0)) = (Inl (Exception ''no transcript''), 0) \<and>
      index_spoken_words indexed_tool ''v1'' 0 = (Inr (), Suc 0)"
    by (simp add: tool_defs start_def)
  have b: "get_transcript broken_tool ''v1'' (world (start 0)) = (Inl (Exception ''no transcript''), 0) \<and>
      index_spoken_words broken_tool ''v1'' 0 = (Inl (Exception ''indexing failed''), 0)"
    by (simp add: tool_defs start_def)
  have c: "TextContent_fault (demo_env None silent_tool good_reply) = None \<and>
      VideoDBTool_init (demo_env None silent_tool good_reply) ''c1'' (world (start 0))
        = (Inr silent_tool, 0) \<and>
      get_transcript silent_tool ''v1'' 0 = (Inl (Exception ''no transcript''), 0) \<and>
      index_spoken_words silent_tool ''v1'' 0 = (Inr (), 0) \<and>
      get_transcript silent_tool ''v1'' 0 = (Inl (Exception ''no transcript''), 0)"
    by (simp add: tool_defs start_def demo_env_def)
  have "fst (agent_get_transcript indexed_tool ''v1'' (start 0))
      = fst (get_transcript indexed_tool ''v1'' (Suc 0))"
    using transcript_single_shot_fallback
      [where tool = indexed_tool and video_id = "''v1''" and s = "start 0"
         and ?e1.0 = "Exception ''no transcript''" and ?w1.0 = 0 and ?w2.0 = "Suc 0"] a
    by blast
  then have 1: "fst (agent_get_transcript indexed_tool ''v1'' (start 0)) = Inr ''Welcome to the show''"
    by (simp add: tool_defs)
  have 2: "fst (agent_get_transcript broken_tool ''v1'' (start 0)) = Inl (Exception ''indexing failed'')"
    using transcript_single_shot_fallback
      [where tool = broken_tool and video_id = "''v1''" and s = "start 0"
         and ?e1.0 = "Exception ''no transcript''" and ?w1.0 = 0 and ?w2.0 = 0
         and ?e2.0 = "Exception ''indexing failed''"] b
    by blast
  have "fst (run (demo_env None silent_tool good_reply) ''v1'' ''c1'' ''bold'' (start 0))
     = \<lparr>resp_status = ERROR,
        resp_message = ''Agent failed with error: '' @ str_exn (Exception ''no transcript''),
        resp_data = []\<rparr>"
    using transcript_single_shot_fallback
      [where tool = silent_tool and video_id = "''v1''" and s = "start 0"
         and E = "demo_env None silent_tool good_reply" and collection_id = "''c1''"
         and ?w0.0 = 0 and ?e1.0 = "Exception ''no transcript''" and ?w1.0 = 0 and ?w2.0 = 0
         and ?e3.0 = "Exception ''no transcript''" and ?w3.0 = 0 and prompt = "''bold''"] c
    by blast
  then have 3: "fst (run (demo_env None silent_tool good_reply) ''v1'' ''c1'' ''bold'' (start 0))
     = \<lparr>resp_status = ERROR,
        resp_message = ''Agent failed with error: no transcript'',
        resp_data = []\<rparr>"
    by simp
  show ?thesis using 1 2 3 by blast
qed

text \<open>
  The initial fetch raises, indexing raises, and the record of the sub-procedure holds one
  fetch of the transcript, the initial one.
\<close>

theorem no_retry_counterexample:
  "fst (get_transcript broken_tool ''v1'' (world (start 0))) = Inl (Exception ''no transcript'') \<and>
   count_list (events (snd (agent_get_transcript broken_tool ''v1'' (start 0))))
     (Call ''get_transcript'' [''v1'']) = 1"
  by (simp add: agent_get_transcript_def sink_defs tool_defs start_def)

section \<open>The failure boundary of run\<close>

text \<open>
  C3, as amended. Every exception that leaves the body of \<open>run\<close>, from the
  construction of the content object, from transcript or scene acquisition, from the LLM
  call (a reply with a non-success status included) or from parsing and rendering the
  reply, is caught at the one \<open>except\<close> clause of \<open>run\<close>. The clause publishes a
  terminal error notification if and only if the content object was already constructed:
  none when the constructor raised, exactly one, with status \<open>error\<close>, when the body
  raised after it. In every such case \<open>run\<close> returns a response with status ERROR,
  empty data, and the message \<open>Agent failed with error: \<close> followed by the textual
  description of the exception; the exception never reaches the caller.

  The claim as stated has the message equal to the textual description of the failure;
  the source puts a fixed prefix before it.
\<close>

theorem failures_caught_at_top_level:
  "(TextContent_fault E = Some e \<longrightarrow>
      run E video_id collection_id prompt s
        = (\<lparr>resp_status = ERROR,
            resp_message = ''Agent failed with error: '' @ str_exn e,
            resp_data = []\<rparr>,
           logger_exception ''Error in hook_template'' s) \<and>
      terminal_messages s (snd (run E video_id collection_id prompt s)) = []) \<and>
   (TextContent E hook_template progress ''Analyzing video content...'' = Inr tc \<and>
    run_try E tc video_id collection_id prompt s = (Inl e, s') \<longrightarrow>
      fst (run E video_id collection_id prompt s)
        = \<lparr>resp_status = ERROR,
           resp_message = ''Agent failed with error: '' @ str_exn e,
           resp_data = []\<rparr> \<and>
      terminal_messages s (snd (run E video_id collection_id prompt s))
        = [Publish (actions s')
             (content s @ [tc\<lparr>status := error,
                status_message := ''Error generating hook template: '' @ str_exn e\<rparr>])])"
proof (intro conjI impI)
  assume f: "TextContent_fault E = Some e"
  then show *: "run E video_id collection_id prompt s
        = (\<lparr>resp_status = ERROR,
            resp_message = ''Agent failed with error: '' @ str_exn e,
            resp_data = []\<rparr>,
           logger_exception ''Error in hook_template'' s)"
    by (simp add: run_def TextContent_def run_except_def hook_template_def)
  show "terminal_messages s (snd (run E video_id collection_id prompt s)) = []"
    by (simp add: * terminal_messages_def new_events_def logger_exception_def)
next
  assume a: "TextContent E hook_template progress ''Analyzing video content...'' = Inr tc \<and>
    run_try E tc video_id collection_id prompt s = (Inl e, s')"
  from run_try_raises [OF conjunct2 [OF a]]
  have c: "content s' = content s @ [tc]" and ev: "events s' = events s @ new_events s s'"
    and t: "terminal_messages s s' = []"
    by simp_all
  have *: "run E video_id collection_id prompt s
      = (\<lparr>resp_status = ERROR,
           resp_message = ''Agent failed with error: '' @ str_exn e,
           resp_data = []\<rparr>,
         publish (set_error (length (content s)) e (logger_exception ''Error in hook_template'' s')))"
    using a by (simp add: run_def run_except_def hook_template_def)
  show "fst (run E video_id collection_id prompt s)
        = \<lparr>resp_status = ERROR,
           resp_message = ''Agent failed with error: '' @ str_exn e,
           resp_data = []\<rparr>"
    by (simp add: *)
  have "events (snd (run E video_id collection_id prompt s))
      = events s @ new_events s s' @
        [Log_exception ''Error in hook_template'',
         Publish (actions s')
             (content s @ [tc\<lparr>status := error,
                status_message := ''Error generating hook template: '' @ str_exn e\<rparr>])]"
    using ev by (simp add: * sink_defs set_error_def c)
  then show "terminal_messages s (snd (run E video_id collection_id prompt s))
        = [Publish (actions s')
             (content s @ [tc\<lparr>status := error,
                status_message := ''Error generating hook template: '' @ str_exn e\<rparr>])]"
    using t by (simp add: terminal_messages_def new_events_def)
qed

text \<open>
  Two instances: the constructor of the content object raises; the LLM replies with a
  non-success status.
\<close>

theorem failures_caught_at_top_level_witness:
  "run (demo_env (Some (Exception ''validation'')) indexed_tool good_reply)
       ''v1'' ''c1'' ''bold'' (start 1)
     = (\<lparr>resp_status = ERROR,
         resp_message = ''Agent failed with error: validation'',
         resp_data = []\<rparr>,
        logger_exception ''Error in hook_template'' (start 1)) \<and>
   fst (run (demo_env None indexed_tool failed_reply) ''v1'' ''c1'' ''bold'' (start 1))
     = \<lparr>resp_status = ERROR,
        resp_message = ''Agent failed with error: Failed to generate hook template'',
        resp_data = []\<rparr>"
proof -
  let ?E = "demo_env None indexed_tool failed_reply"
  let ?s' = "snd (run_try ?E first_content ''v1'' ''c1'' ''bold'' (start 1))"
  have f: "TextContent_fault (demo_env (Some (Exception ''validation'')) indexed_tool good_reply)
      = Some (Exception ''validation'')"
    by (simp add: demo_env_def)
  have r: "run_try ?E first_content ''v1'' ''c1'' ''bold'' (start 1)
      = (Inl (Exception ''Failed to generate hook template''), ?s')"
    using demo_llm_failure by (metis prod.collapse)
  have 1: "run (demo_env (Some (Exception ''validation'')) indexed_tool good_reply)
       ''v1'' ''c1'' ''bold'' (start 1)
     = (\<lparr>resp_status = ERROR,
         resp_message = ''Agent failed with error: '' @ str_exn (Exception ''validation''),
         resp_data = []\<rparr>,
        logger_exception ''Error in hook_template'' (start 1))"
    using failures_caught_at_top_level
      [where E = "demo_env (Some (Exception ''validation'')) indexed_tool good_reply"
         and e = "Exception ''validation''" and s = "start 1"] f
    by blast
  have 2: "fst (run ?E ''v1'' ''c1'' ''bold'' (start 1))
     = \<lparr>resp_status = ERROR,
        resp_message = ''Agent failed with error: ''
          @ str_exn (Exception ''Failed to generate hook template''),
        resp_data = []\<rparr>"
    using failures_caught_at_top_level
      [where E = ?E and tc = first_content and s = "start 1" and s' = ?s'
         and e = "Exception ''Failed to generate hook template''"] demo_TextContent r
    by blast
  show ?thesis using 1 2 by simp
qed

text \<open>
  The LLM replies with a non-success status: the body raises the exception with the text
  \<open>Failed to generate hook template\<close>, and the message of the response is not this
  text.
\<close>

theorem error_message_counterexample:
  "fst (run_try (demo_env None indexed_tool failed_reply) first_content ''v1'' ''c1'' ''bold'' (start 1))
     = Inl (Exception ''Failed to generate hook template'') \<and>
   resp_message (fst (run (demo_env None indexed_tool failed_reply) ''v1'' ''c1'' ''bold'' (start 1)))
     \<noteq> str_exn (Exception ''Failed to generate hook template'')"
proof -
  obtain s' where r:
    "run_try (demo_env None indexed_tool failed_reply) first_content ''v1'' ''c1'' ''bold'' (start 1)
      = (Inl (Exception ''Failed to generate hook template''), s')"
    using demo_llm_failure by (metis prod.collapse)
  have "resp_message (fst (run (demo_env None indexed_tool failed_reply) ''v1'' ''c1'' ''bold'' (start 1)))
      = ''Agent failed with error: Failed to generate hook template''"
    by (simp add: run_def demo_TextContent r run_except_def del: One_nat_def)
  then show ?thesis using demo_llm_failure by simp
qed

section \<open>The prompt\<close>

text \<open>
  C4. For every style prompt, every transcript and every scene sequence, the prompt
  that \<open>run\<close> assembles is the fixed text of the source with three parts put in:
  the style prompt of the user; the first 1000 characters of the transcript when it is
  not empty, and \<open>No transcript available\<close> otherwise; and the JSON array of the
  descriptions of the first 5 scenes when there is a scene, and
  \<open>No scenes available\<close> when the scene sequence is empty or absent. This prompt is
  what the agent sends to the LLM, right after the progress notification
  \<open>Generating hook template...\<close>.
\<close>

theorem prompt_contents:
  "llm_prompt rt prompt transcript scenes
     = llm_prompt_intro @ prompt @
       llm_prompt_analysis @
         (if transcript = [] then ''No transcript available'' else take 1000 transcript) @
       llm_prompt_scenes @
         (case scenes of
            None \<Rightarrow> ''No scenes available''
          | Some xs \<Rightarrow>
              if xs = [] then ''No scenes available''
              else json_dumps rt (JArr (map (\<lambda>scene. JStr (description scene)) (take 5 xs)))) @
       llm_prompt_instructions \<and>
   take 2 (new_events s (snd (run_generate E i prompt transcript scenes s)))
     = [Push_update (actions s @ [''Generating hook template...'']) (content s),
        Call ''chat_completions'' [llm_prompt (py E) prompt transcript scenes]]"
proof
  show "llm_prompt rt prompt transcript scenes
     = llm_prompt_intro @ prompt @
       llm_prompt_analysis @
         (if transcript = [] then ''No transcript available'' else take 1000 transcript) @
       llm_prompt_scenes @
         (case scenes of
            None \<Rightarrow> ''No scenes available''
          | Some xs \<Rightarrow>
              if xs = [] then ''No scenes available''
              else json_dumps rt (JArr (map (\<lambda>scene. JStr (description scene)) (take 5 xs)))) @
       llm_prompt_instructions"
  proof (cases scenes)
    case None
    then show ?thesis by (simp add: llm_prompt_def)
  next
    case (Some xs)
    then show ?thesis by (cases xs) (simp_all add: llm_prompt_def)
  qed
  have "\<exists>rest. events (snd (run_generate E i prompt transcript scenes s))
      = events s @
        Push_update (actions s @ [''Generating hook template...'']) (content s) #
        Call ''chat_completions'' [llm_prompt (py E) prompt transcript scenes] # rest"
    unfolding run_generate_def Let_def sink_defs set_success_def
    by (auto split: prod.splits sum.splits)
  then obtain rest where "new_events s (snd (run_generate E i prompt transcript scenes s))
      = Push_update (actions s @ [''Generating hook template...'']) (content s) #
        Call ''chat_completions'' [llm_prompt (py E) prompt transcript scenes] # rest"
    by (auto simp: new_events_def)
  then show "take 2 (new_events s (snd (run_generate E i prompt transcript scenes s)))
     = [Push_update (actions s @ [''Generating hook template...'']) (content s),
        Call ''chat_completions'' [llm_prompt (py E) prompt transcript scenes]]"
    by simp
qed

text \<open>
  Two instances: a transcript of 1200 characters with six scenes, of which 1000
  characters and five descriptions reach the prompt; an empty transcript with no
  scenes.
\<close>

theorem prompt_contents_witness:
  \<open>llm_prompt demo_py ''bold'' (replicate 1200 CHR ''a'') (Some six_scenes)
     = llm_prompt_intro @ ''bold'' @
       llm_prompt_analysis @ replicate 1000 CHR ''a'' @
       llm_prompt_scenes @
         (''["Two hosts in a podcast studio", "Close-up of the guest", '' @
          ''"Two hosts in a podcast studio", "Close-up of the guest", '' @
          ''"Two hosts in a podcast studio"]'') @
       llm_prompt_instructions \<and>
   llm_prompt demo_py ''bold'' [] None
     = llm_prompt_intro @ ''bold'' @
       llm_prompt_analysis @ ''No transcript available'' @
       llm_prompt_scenes @ ''No scenes available'' @
       llm_prompt_instructions\<close>
proof -
  have r: "replicate 1200 CHR ''a'' \<noteq> [] \<and> take 1000 (replicate 1200 CHR ''a'') = replicate 1000 CHR ''a''"
    by simp
  have d: \<open>six_scenes \<noteq> [] \<and>
      json_dumps demo_py (JArr (map (\<lambda>scene. JStr (description scene)) (take 5 six_scenes)))
      = ''["Two hosts in a podcast studio", "Close-up of the guest", '' @
          ''"Two hosts in a podcast studio", "Close-up of the guest", '' @
          ''"Two hosts in a podcast studio"]''\<close>
    by (simp add: six_scenes_def demo_scenes_def demo_py_def)
  show ?thesis
    using prompt_contents [of demo_py "''bold''" "replicate 1200 CHR ''a''" "Some six_scenes",
        THEN conjunct1]
      prompt_contents [of demo_py "''bold''" "[]" None, THEN conjunct1]
    by (simp only: r d option.case if_False if_True simp_thms)
qed

section \<open>The rendered template\<close>

text \<open>
  C5, as amended. On every successful invocation the content object and the video tool
  were built, acquisition returned a transcript and scenes, and the chat completion,
  called with the prompt assembled from them, returned a reply that parses: to
  \<open>template_data\<close>, say. This object has the six fields, and the template in the data
  of the response is a newline, then the layout of the specification filled with the
  formatted values of these six fields of \<open>template_data\<close>, then a newline and twelve
  spaces. When the visuals are empty, an empty line stands where their lines would be.

  The claim as stated has no character before or after the layout; the triple-quoted
  string of the source opens with a line break and closes after the indentation of its
  last line.
\<close>

theorem template_layout:
  assumes "resp_status (fst (run E video_id collection_id prompt s)) = SUCCESS"
  shows "\<exists>tc transcript scenes s2 reply w3 template_data
            script visuals transitions music sound_effects pacing.
           TextContent E hook_template progress ''Analyzing video content...'' = Inr tc \<and>
           run_acquire E video_id collection_id (push_update (content_append tc s))
             = (Inr (transcript, scenes), s2) \<and>
           chat_completions E (llm_prompt (py E) prompt transcript scenes) (world s2)
             = (Inr reply, w3) \<and>
           llm_status reply \<and>
           json_loads (py E) (llm_content reply) = Inr template_data \<and>
           py_getitem (py E) template_data ''script'' = Inr script \<and>
           and_then (py_getitem (py E) template_data ''visuals'') (py_iter (py E)) = Inr visuals \<and>
           py_getitem (py E) template_data ''transitions'' = Inr transitions \<and>
           py_getitem (py E) template_data ''music'' = Inr music \<and>
           py_getitem (py E) template_data ''sound_effects'' = Inr sound_effects \<and>
           py_getitem (py E) template_data ''pacing'' = Inr pacing \<and>
           resp_data (fst (run E video_id collection_id prompt s)) =
             [(''template'', JStr (
                ''\<newline>'' @
                (if visuals = []
                 then hook_layout (py_format (py E) script) [[]]
                        (py_format (py E) transitions) (py_format (py E) music)
                        (py_format (py E) sound_effects) (py_format (py E) pacing)
                 else spec_layout (py_format (py E) script) (map (py_format (py E)) visuals)
                        (py_format (py E) transitions) (py_format (py E) music)
                        (py_format (py E) sound_effects) (py_format (py E) pacing)) @
                ''\<newline>            ''))]"
proof -
  from run_success [OF assms] obtain tc transcript scenes s2 and reply :: llm_response
    and w3 template_data template where
    p: "TextContent E hook_template progress ''Analyzing video content...'' = Inr tc"
       "run_acquire E video_id collection_id (push_update (content_append tc s))
             = (Inr (transcript, scenes), s2)"
       "chat_completions E (llm_prompt (py E) prompt transcript scenes) (world s2)
             = (Inr reply, w3)"
       "llm_status reply"
       "json_loads (py E) (llm_content reply) = Inr template_data" and
    r: "render_template (py E) template_data = Inr template" and
    d: "fst (run E video_id collection_id prompt s)
             = \<lparr>resp_status = SUCCESS,
                resp_message = ''Agent hook_template completed successfully.'',
                resp_data = [(''template'', JStr template)]\<rparr>"
    by blast
  from render_template_layout [OF r] obtain script visuals transitions music sound_effects pacing
    where g: "py_getitem (py E) template_data ''script'' = Inr script"
      "and_then (py_getitem (py E) template_data ''visuals'') (py_iter (py E)) = Inr visuals"
      "py_getitem (py E) template_data ''transitions'' = Inr transitions"
      "py_getitem (py E) template_data ''music'' = Inr music"
      "py_getitem (py E) template_data ''sound_effects'' = Inr sound_effects"
      "py_getitem (py E) template_data ''pacing'' = Inr pacing"
    and t: "template =
             ''\<newline>'' @
             hook_layout (py_format (py E) script)
               (if visuals = [] then [[]]
                else map (\<lambda>visual. ''- '' @ py_format (py E) visual) visuals)
               (py_format (py E) transitions) (py_format (py E) music)
               (py_format (py E) sound_effects) (py_format (py E) pacing) @
             ''\<newline>            ''"
    by blast
  have "template = ''\<newline>'' @
                (if visuals = []
                 then hook_layout (py_format (py E) script) [[]]
                        (py_format (py E) transitions) (py_format (py E) music)
                        (py_format (py E) sound_effects) (py_format (py E) pacing)
                 else spec_layout (py_format (py E) script) (map (py_format (py E)) visuals)
                        (py_format (py E) transitions) (py_format (py E) music)
                        (py_format (py E) sound_effects) (py_format (py E) pacing)) @
                ''\<newline>            ''"
    unfolding t spec_layout_def by (simp add: comp_def)
  then have "resp_data (fst (run E video_id collection_id prompt s)) =
             [(''template'', JStr (
                ''\<newline>'' @
                (if visuals = []
                 then hook_layout (py_format (py E) script) [[]]
                        (py_format (py E) transitions) (py_format (py E) music)
                        (py_format (py E) sound_effects) (py_format (py E) pacing)
                 else spec_layout (py_format (py E) script) (map (py_format (py E)) visuals)
                        (py_format (py E) transitions) (py_format (py E) music)
                        (py_format (py E) sound_effects) (py_format (py E) pacing)) @
                ''\<newline>            ''))]"
    by (simp add: d)
  with p g show ?thesis by blast
qed

text \<open>
  An instance: an invocation that succeeds. The reply is the JSON text of an object with
  the script \<open>Hooks win\<close> and two visuals, and the template of the response is the
  layout of these values between a newline and a newline with twelve spaces.
\<close>

theorem template_layout_witness:
  "resp_status (fst (run good_env ''v1'' ''c1'' ''bold'' (start 1))) = SUCCESS \<and>
   chat_completions good_env (llm_prompt (py good_env) ''bold'' ''Welcome to the show'' None) 1
     = (Inr \<lparr>llm_status = True, llm_content = demo_json\<rparr>, 1) \<and>
   json_loads (py good_env) demo_json = Inr demo_template_data \<and>
   (\<exists>tc transcript scenes s2 reply w3 template_data
            script visuals transitions music sound_effects pacing.
           TextContent good_env hook_template progress ''Analyzing video content...'' = Inr tc \<and>
           run_acquire good_env ''v1'' ''c1'' (push_update (content_append tc (start 1)))
             = (Inr (transcript, scenes), s2) \<and>
           chat_completions good_env (llm_prompt (py good_env) ''bold'' transcript scenes) (world s2)
             = (Inr reply, w3) \<and>
           llm_status reply \<and>
           json_loads (py good_env) (llm_content reply) = Inr template_data \<and>
           py_getitem (py good_env) template_data ''script'' = Inr script \<and>
           and_then (py_getitem (py good_env) template_data ''visuals'') (py_iter (py good_env))
             = Inr visuals \<and>
           py_getitem (py good_env) template_data ''transitions'' = Inr transitions \<and>
           py_getitem (py good_env) template_data ''music'' = Inr music \<and>
           py_getitem (py good_env) template_data ''sound_effects'' = Inr sound_effects \<and>
           py_getitem (py good_env) template_data ''pacing'' = Inr pacing \<and>
           resp_data (fst (run good_env ''v1'' ''c1'' ''bold'' (start 1))) =
             [(''template'', JStr (
                ''\<newline>'' @
                (if visuals = []
                 then hook_layout (py_format (py good_env) script) [[]]
                        (py_format (py good_env) transitions) (py_format (py good_env) music)
                        (py_format (py good_env) sound_effects) (py_format (py good_env) pacing)
                 else spec_layout (py_format (py good_env) script)
                        (map (py_format (py good_env)) visuals)
                        (py_format (py good_env) transitions) (py_format (py good_env) music)
                        (py_format (py good_env) sound_effects) (py_format (py good_env) pacing)) @
                ''\<newline>            ''))])"
proof -
  have s: "resp_status (fst (run good_env ''v1'' ''c1'' ''bold'' (start 1))) = SUCCESS"
    by (simp add: good_run del: One_nat_def)
  have c: "chat_completions good_env (llm_prompt (py good_env) ''bold'' ''Welcome to the show'' None) 1
     = (Inr \<lparr>llm_status = True, llm_content = demo_json\<rparr>, 1)"
    by (simp add: good_env_def demo_env_def good_reply_def)
  have l: "json_loads (py good_env) demo_json = Inr demo_template_data"
    by (simp add: good_env_def demo_env_def demo_loads)
  show ?thesis
    using s c l template_layout [OF s] by (intro conjI)
qed

text \<open>
  The same invocation: the template is the layout between a newline and a newline with
  twelve spaces, and it is not the layout alone.
\<close>

theorem template_layout_counterexample:
  "resp_status (fst (run good_env ''v1'' ''c1'' ''bold'' (start 1))) = SUCCESS \<and>
   resp_data (fst (run good_env ''v1'' ''c1'' ''bold'' (start 1)))
     = [(''template'',
         JStr (''\<newline>'' @
               spec_layout ''Hooks win'' [''Two hosts'', ''Guest laughs''] ''Cuts'' ''Soft'' ''None'' ''Fast'' @
               ''\<newline>            ''))] \<and>
   resp_data (fst (run good_env ''v1'' ''c1'' ''bold'' (start 1)))
     \<noteq> [(''template'',
          JStr (spec_layout ''Hooks win'' [''Two hosts'', ''Guest laughs''] ''Cuts'' ''Soft'' ''None'' ''Fast''))]"
proof -
  have l: "spec_layout ''Hooks win'' [''Two hosts'', ''Guest laughs''] ''Cuts'' ''Soft'' ''None'' ''Fast''
      = ''Hook Script:\<newline>'' @ [CHR 0x22] @ ''Hooks win'' @ [CHR 0x22] @ ''\<newline>\<newline>'' @
        ''Visual Elements:\<newline>- Two hosts\<newline>- Guest laughs\<newline>\<newline>'' @
        ''Transitions:\<newline>Cuts\<newline>\<newline>'' @
        ''Audio:\<newline>- Music: Soft\<newline>- Sound Effects: None\<newline>\<newline>'' @
        ''Pacing:\<newline>Fast''"
    by (simp add: spec_layout_def hook_layout_def)
  show ?thesis
    unfolding l by (simp add: good_run demo_template_def del: One_nat_def)
qed

section \<open>Terminal notifications\<close>

text \<open>
  C6, as amended. An invocation of \<open>run\<close> only adds to the record of events. When
  the content object is constructed, the events it adds end with exactly one terminal
  notification: a publication of the output message, whose content is the content from
  before the invocation followed by the content object, with the status \<open>success\<close>
  when the response is SUCCESS and \<open>error\<close> otherwise. Every event before it is a
  call, a log record, or a progress message: a flush of the output message in which the
  content object still has the status \<open>progress\<close> it was constructed with. So no
  invocation emits two terminal notifications, a success after an error, or a success or
  error status ahead of the terminal notification. When the constructor of the content
  object raises, the invocation adds one log record and no message at all, and the
  response is ERROR.

  The claim as stated has exactly one terminal notification in every invocation; the
  \<open>except\<close> clause publishes only if \<open>text_content\<close> is among the locals.
\<close>

theorem one_terminal_message:
  "events (snd (run E video_id collection_id prompt s))
     = events s @ new_events s (snd (run E video_id collection_id prompt s)) \<and>
   (TextContent_fault E = None \<longrightarrow>
      (\<exists>evs acts tc.
         new_events s (snd (run E video_id collection_id prompt s))
           = evs @ [Publish acts (content s @ [tc])] \<and>
         filter is_publish evs = [] \<and>
         list_all
           (progress_event
              (content s @
               [\<lparr>agent_name = hook_template, status = progress,
                 status_message = ''Analyzing video content...'',
                 text_value = TextContent_default_text E\<rparr>])) evs \<and>
         status tc = (if resp_status (fst (run E video_id collection_id prompt s)) = SUCCESS
                      then success else error))) \<and>
   (TextContent_fault E \<noteq> None \<longrightarrow>
      new_events s (snd (run E video_id collection_id prompt s))
        = [Log_exception ''Error in hook_template''] \<and>
      terminal_messages s (snd (run E video_id collection_id prompt s)) = [] \<and>
      resp_status (fst (run E video_id collection_id prompt s)) = ERROR)"
proof (cases "TextContent_fault E")
  case (Some e)
  then have "run E video_id collection_id prompt s
      = (\<lparr>resp_status = ERROR,
            resp_message = ''Agent failed with error: '' @ str_exn e,
            resp_data = []\<rparr>,
           logger_exception ''Error in hook_template'' s)"
    by (simp add: run_def TextContent_def run_except_def hook_template_def)
  then show ?thesis
    using Some by (simp add: terminal_messages_def new_events_def logger_exception_def)
next
  case None
  let ?tc = "\<lparr>agent_name = hook_template, status = progress,
       status_message = ''Analyzing video content...'',
       text_value = TextContent_default_text E\<rparr>"
  have tc: "TextContent E hook_template progress ''Analyzing video content...'' = Inr ?tc"
    using None by (simp add: TextContent_def)
  obtain r s' where rt: "run_try E ?tc video_id collection_id prompt s = (r, s')"
    by (cases "run_try E ?tc video_id collection_id prompt s")
  show ?thesis
  proof (cases r)
    case (Inl e)
    from run_try_raises [OF rt [unfolded Inl]]
    have c: "content s' = content s @ [?tc]" and ev: "events s' = events s @ new_events s s'"
      and t: "filter is_publish (new_events s s') = []"
      and p: "list_all (progress_event (content s @ [?tc])) (new_events s s')"
      by (simp_all add: terminal_messages_def)
    let ?tc' = "?tc\<lparr>status := error,
                status_message := ''Error generating hook template: '' @ str_exn e\<rparr>"
    have *: "run E video_id collection_id prompt s
        = (\<lparr>resp_status = ERROR,
           resp_message = ''Agent failed with error: '' @ str_exn e,
           resp_data = []\<rparr>,
         publish (set_error (length (content s)) e (logger_exception ''Error in hook_template'' s')))"
      using tc rt Inl by (simp add: run_def run_except_def hook_template_def)
    have e: "events (snd (run E video_id collection_id prompt s))
        = events s @ (new_events s s' @ [Log_exception ''Error in hook_template'']) @
          [Publish (actions s') (content s @ [?tc'])]"
      using ev by (simp add: * sink_defs set_error_def c)
    then have n: "new_events s (snd (run E video_id collection_id prompt s))
        = (new_events s s' @ [Log_exception ''Error in hook_template'']) @
          [Publish (actions s') (content s @ [?tc'])]"
      by (simp add: new_events_def [of s "snd (run E video_id collection_id prompt s)"])
    have 1: "events (snd (run E video_id collection_id prompt s))
        = events s @ new_events s (snd (run E video_id collection_id prompt s))"
      unfolding n using e by simp
    have 2: "filter is_publish (new_events s s' @ [Log_exception ''Error in hook_template'']) = []"
      using t by simp
    have 3: "status ?tc' = (if resp_status (fst (run E video_id collection_id prompt s)) = SUCCESS
                      then success else error)"
      by (simp add: *)
    have 4: "list_all (progress_event (content s @ [?tc]))
        (new_events s s' @ [Log_exception ''Error in hook_template''])"
      using p by simp
    show ?thesis using None 1 n 2 3 4 by blast
  next
    case (Inr response)
    from run_try_returns [OF rt [unfolded Inr]] obtain template evs where
      r: "response = \<lparr>resp_status = SUCCESS,
                        resp_message = ''Agent hook_template completed successfully.'',
                        resp_data = [(''template'', JStr template)]\<rparr>" and
      c: "content s' = content s @ [?tc\<lparr>status := success,
                            status_message := ''Hook template generated successfully'',
                            text_value := template\<rparr>]" and
      e: "events s' = events s @ new_events s s'" and
      n: "new_events s s' = evs @ [Publish (actions s') (content s')]" and
      f: "filter is_publish evs = []" and
      p: "list_all (progress_event (content s @ [?tc])) evs"
      by blast
    have *: "run E video_id collection_id prompt s = (response, s')"
      using tc rt Inr by (simp add: run_def)
    have 3: "status (?tc\<lparr>status := success,
                            status_message := ''Hook template generated successfully'',
                            text_value := template\<rparr>)
        = (if resp_status (fst (run E video_id collection_id prompt s)) = SUCCESS
                      then success else error)"
      by (simp add: * r)
    have 1: "events (snd (run E video_id collection_id prompt s))
        = events s @ new_events s (snd (run E video_id collection_id prompt s))"
      using e by (simp add: *)
    have n': "new_events s (snd (run E video_id collection_id prompt s))
        = evs @ [Publish (actions s') (content s @ [?tc\<lparr>status := success,
                            status_message := ''Hook template generated successfully'',
                            text_value := template\<rparr>])]"
      using n c by (simp add: *)
    show ?thesis using None 1 n' f p 3 by blast
  qed
qed

text \<open>
  Two instances: an invocation that succeeds, and one in which the constructor of the
  content object raises.
\<close>

theorem one_terminal_message_witness:
  "TextContent_fault (demo_env None indexed_tool good_reply) = None \<and>
   (\<exists>evs acts tc.
      new_events (start 1)
          (snd (run (demo_env None indexed_tool good_reply) ''v1'' ''c1'' ''bold'' (start 1)))
        = evs @ [Publish acts (content (start 1) @ [tc])] \<and>
      filter is_publish evs = [] \<and>
      list_all
        (progress_event
           (content (start 1) @
            [\<lparr>agent_name = hook_template, status = progress,
              status_message = ''Analyzing video content...'',
              text_value = TextContent_default_text (demo_env None indexed_tool good_reply)\<rparr>]))
        evs \<and>
      status tc
        = (if resp_status
                (fst (run (demo_env None indexed_tool good_reply) ''v1'' ''c1'' ''bold'' (start 1)))
              = SUCCESS
           then success else error)) \<and>
   TextContent_fault (demo_env (Some (Exception ''validation'')) indexed_tool good_reply) \<noteq> None \<and>
   new_events (start 1)
       (snd (run (demo_env (Some (Exception ''validation'')) indexed_tool good_reply)
               ''v1'' ''c1'' ''bold'' (start 1)))
     = [Log_exception ''Error in hook_template''] \<and>
   terminal_messages (start 1)
       (snd (run (demo_env (Some (Exception ''validation'')) indexed_tool good_reply)
               ''v1'' ''c1'' ''bold'' (start 1))) = []"
proof -
  have a: "TextContent_fault (demo_env None indexed_tool good_reply) = None"
    by (simp add: demo_env_def)
  have b: "TextContent_fault (demo_env (Some (Exception ''validation'')) indexed_tool good_reply)
      \<noteq> None"
    by (simp add: demo_env_def)
  show ?thesis
    using a b
      one_terminal_message
        [of "demo_env None indexed_tool good_reply" "''v1''" "''c1''" "''bold''" "start 1"]
      one_terminal_message
        [of "demo_env (Some (Exception ''validation'')) indexed_tool good_reply"
            "''v1''" "''c1''" "''bold''" "start 1"]
    by blast
qed

text \<open>
  The constructor of the content object raises, and the invocation publishes nothing.
\<close>

theorem no_terminal_message_counterexample:
  "terminal_messages (start 1)
       (snd (run (demo_env (Some (Exception ''validation'')) indexed_tool good_reply)
               ''v1'' ''c1'' ''bold'' (start 1))) = []"
  by (simp add: run_def TextContent_def run_except_def demo_env_def terminal_messages_def
      new_events_def logger_exception_def start_def)

section \<open>A reply with a non-success status\<close>

text \<open>
  C7. If the invocation reaches the LLM call (the content object is built and
  acquisition returns) and the chat completion replies with a non-success status, then
  \<open>run\<close> returns a response with status ERROR whose message is
  \<open>Agent failed with error: Failed to generate hook template\<close>, and the data of the
  response has no \<open>template\<close> key.
\<close>

theorem llm_failure_is_error:
  assumes "TextContent E hook_template progress ''Analyzing video content...'' = Inr tc"
    and "run_acquire E video_id collection_id (push_update (content_append tc s))
           = (Inr (transcript, scenes), s2)"
    and "chat_completions E (llm_prompt (py E) prompt transcript scenes) (world s2)
           = (Inr reply, w3)"
    and "\<not> llm_status reply"
  shows "fst (run E video_id collection_id prompt s)
           = \<lparr>resp_status = ERROR,
              resp_message = ''Agent failed with error: Failed to generate hook template'',
              resp_data = []\<rparr> \<and>
         map_of (resp_data (fst (run E video_id collection_id prompt s))) ''template'' = None"
proof -
  obtain s3 where gen:
    "run_generate E (length (content s)) prompt transcript scenes s2
       = (Inl (Exception ''Failed to generate hook template''), s3)"
    using assms(3,4) unfolding run_generate_def Let_def sink_defs
    by (simp split: prod.splits)
  have "run_try E tc video_id collection_id prompt s
      = (Inl (Exception ''Failed to generate hook template''), s3)"
    using assms(2) gen unfolding run_try_def Let_def bind_ex_def by simp
  then have "fst (run E video_id collection_id prompt s)
           = \<lparr>resp_status = ERROR,
              resp_message = ''Agent failed with error: Failed to generate hook template'',
              resp_data = []\<rparr>"
    using assms(1) by (simp add: run_def run_except_def)
  then show ?thesis by simp
qed

text \<open>
  An instance: the transcript is there, there are no scenes, and the LLM replies with a
  non-success status.
\<close>

theorem llm_failure_is_error_witness:
  "fst (run (demo_env None indexed_tool failed_reply) ''v1'' ''c1'' ''bold'' (start 1))
     = \<lparr>resp_status = ERROR,
        resp_message = ''Agent failed with error: Failed to generate hook template'',
        resp_data = []\<rparr> \<and>
   map_of (resp_data (fst (run (demo_env None indexed_tool failed_reply)
                             ''v1'' ''c1'' ''bold'' (start 1)))) ''template'' = None"
proof -
  let ?E = "demo_env None indexed_tool failed_reply"
  have "fst (run_acquire ?E ''v1'' ''c1'' (push_update (content_append first_content (start 1))))
      = Inr (''Welcome to the show'', None)"
    by (simp add: run_acquire_def agent_get_transcript_def agent_get_scenes_def sink_defs
        tool_defs demo_env_def start_def)
  then obtain s2 where acq:
    "run_acquire ?E ''v1'' ''c1'' (push_update (content_append first_content (start 1)))
      = (Inr (''Welcome to the show'', None), s2)"
    by (metis prod.collapse)
  have chat: "chat_completions ?E (llm_prompt (py ?E) ''bold'' ''Welcome to the show'' None) (world s2)
      = (Inr \<lparr>llm_status = False, llm_content = []\<rparr>, world s2)"
    by (simp add: demo_env_def failed_reply_def)
  have st: "\<not> llm_status \<lparr>llm_status = False, llm_content = []\<rparr>"
    by simp
  show ?thesis
    using llm_failure_is_error [OF demo_TextContent acq chat st] .
qed

section \<open>Rendering as a function of six fields\<close>

text \<open>
  C8. Rendering reads the parsed object through its six fields only, and nothing else:
  two parsed objects that agree on \<open>script\<close>, \<open>visuals\<close>, \<open>transitions\<close>,
  \<open>music\<close>, \<open>sound_effects\<close> and \<open>pacing\<close> render to the same text (or fail
  with the same exception). In particular rendering the same object twice gives the same
  text.
\<close>

theorem render_depends_on_six_fields:
  assumes "\<forall>key \<in> set [''script'', ''visuals'', ''transitions'', ''music'',
                          ''sound_effects'', ''pacing''].
             py_getitem rt a key = py_getitem rt b key"
  shows "render_template rt a = render_template rt b"
  using assms by (simp add: render_template_def format_field_def format_visuals_def)

text \<open>
  An instance: an object with the fields in another order and one more key renders to
  the text of the original.
\<close>

theorem render_depends_on_six_fields_witness:
  "demo_template_data \<noteq> shuffled_template_data \<and>
   render_template demo_py shuffled_template_data = Inr demo_template"
proof -
  have "\<forall>key \<in> set [''script'', ''visuals'', ''transitions'', ''music'',
                          ''sound_effects'', ''pacing''].
             py_getitem demo_py demo_template_data key = py_getitem demo_py shuffled_template_data key"
    by (simp add: py_getitem_def demo_template_data_def shuffled_template_data_def)
  from render_depends_on_six_fields [OF this]
  have "render_template demo_py shuffled_template_data = Inr demo_template"
    by (simp add: demo_render)
  moreover have "demo_template_data \<noteq> shuffled_template_data"
    by (simp add: demo_template_data_def shuffled_template_data_def)
  ultimately show ?thesis by simp
qed

section \<open>Safe invocation\<close>

text \<open>
  C9. For every agent and every argument list, \<open>safe_call\<close> returns the result of the
  wrapped invocation unchanged when that does not raise; when it raises, \<open>safe_call\<close>
  returns a response whose result is the error result status, whose message is the
  textual description of the exception and whose data is empty, and it logs the failure.
  The fault never reaches the caller: \<open>safe_call\<close> returns a response in every case.
\<close>

theorem safe_call_never_raises:
  "(\<forall>r s'. call_agent args s = (Inr r, s') \<longrightarrow> safe_call name call_agent args s = (r, s')) \<and>
   (\<forall>e s'. call_agent args s = (Inl e, s') \<longrightarrow>
      fst (safe_call name call_agent args s)
        = \<lparr>result = AgentResult_ERROR, message = str_exn e, data = []\<rparr> \<and>
      snd (safe_call name call_agent args s)
        = logger_exception (''error in '' @ name @ '' agent: '' @ str_exn e) s')"
  by (simp add: safe_call_def)

theorem safe_call_never_raises_witness:
  "picky_agent 1 idle = (Inr \<lparr>result = ''success'', message = ''done'', data = []\<rparr>, idle) \<and>
   safe_call ''picky'' picky_agent 1 idle
     = (\<lparr>result = ''success'', message = ''done'', data = []\<rparr>, idle) \<and>
   picky_agent (- 1) idle = (Inl (Exception ''negative''), idle) \<and>
   fst (safe_call ''picky'' picky_agent (- 1) idle)
     = \<lparr>result = ''error'', message = ''negative'', data = []\<rparr>"
  using safe_call_never_raises [of picky_agent 1 idle "''picky''"]
    safe_call_never_raises [of picky_agent "- 1" idle "''picky''"]
  by (simp add: picky_agent_def AgentResult_SUCCESS_def AgentResult_ERROR_def)

section \<open>The content object on the error path\<close>

text \<open>
  C10. The \<open>except\<close> clause, when the content object exists, leaves the text and
  the agent name of every content object and the actions of the output message as they
  were: it assigns the status and the status message only. In an invocation whose body
  raises after the content object was built, the published content is the content from
  before the invocation followed by the content object as it was constructed, with
  status \<open>error\<close> and the error status message: its text is still the text it was
  constructed with, so no partially built template is published.
\<close>

theorem error_path_keeps_text:
  "map text_value (content (snd (run_except (Some i) e s))) = map text_value (content s) \<and>
   map agent_name (content (snd (run_except (Some i) e s))) = map agent_name (content s) \<and>
   actions (snd (run_except (Some i) e s)) = actions s \<and>
   (TextContent E hook_template progress ''Analyzing video content...'' = Inr tc \<and>
    run_try E tc video_id collection_id prompt s = (Inl e, s') \<longrightarrow>
      content (snd (run E video_id collection_id prompt s))
        = content s @ [tc\<lparr>status := error,
             status_message := ''Error generating hook template: '' @ str_exn e\<rparr>] \<and>
      last (events (snd (run E video_id collection_id prompt s)))
        = Publish (actions s')
            (content s @ [tc\<lparr>status := error,
               status_message := ''Error generating hook template: '' @ str_exn e\<rparr>]) \<and>
      text_value (last (content (snd (run E video_id collection_id prompt s)))) = text_value tc)"
proof (intro conjI impI)
  show "map text_value (content (snd (run_except (Some i) e s))) = map text_value (content s)"
    by (simp add: run_except_def set_error_def sink_defs map_list_update_same)
  show "map agent_name (content (snd (run_except (Some i) e s))) = map agent_name (content s)"
    by (simp add: run_except_def set_error_def sink_defs map_list_update_same)
  show "actions (snd (run_except (Some i) e s)) = actions s"
    by (simp add: run_except_def set_error_def sink_defs)
next
  assume a: "TextContent E hook_template progress ''Analyzing video content...'' = Inr tc \<and>
    run_try E tc video_id collection_id prompt s = (Inl e, s')"
  from run_try_raises [OF conjunct2 [OF a]]
  have c: "content s' = content s @ [tc]"
    by simp
  have *: "snd (run E video_id collection_id prompt s)
      = publish (set_error (length (content s)) e (logger_exception ''Error in hook_template'' s'))"
    using a by (simp add: run_def run_except_def hook_template_def)
  show 1: "content (snd (run E video_id collection_id prompt s))
        = content s @ [tc\<lparr>status := error,
             status_message := ''Error generating hook template: '' @ str_exn e\<rparr>]"
    by (simp add: * sink_defs set_error_def c)
  show "last (events (snd (run E video_id collection_id prompt s)))
        = Publish (actions s')
            (content s @ [tc\<lparr>status := error,
               status_message := ''Error generating hook template: '' @ str_exn e\<rparr>])"
    by (simp add: * sink_defs set_error_def c)
  show "text_value (last (content (snd (run E video_id collection_id prompt s)))) = text_value tc"
    by (simp add: 1)
qed

text \<open>
  An instance: the LLM replies with a non-success status.
\<close>

theorem error_path_keeps_text_witness:
  "content (snd (run (demo_env None indexed_tool failed_reply) ''v1'' ''c1'' ''bold'' (start 1)))
     = content (start 1) @
       [first_content\<lparr>status := error,
          status_message := ''Error generating hook template: ''
            @ str_exn (Exception ''Failed to generate hook template'')\<rparr>] \<and>
   text_value (last (content (snd (run (demo_env None indexed_tool failed_reply)
       ''v1'' ''c1'' ''bold'' (start 1))))) = text_value first_content"
proof -
  obtain s' where r:
    "run_try (demo_env None indexed_tool failed_reply) first_content ''v1'' ''c1'' ''bold'' (start 1)
      = (Inl (Exception ''Failed to generate hook template''), s')"
    using demo_llm_failure by (metis prod.collapse)
  show ?thesis
    using error_path_keeps_text
      [where E = "demo_env None indexed_tool failed_reply" and tc = first_content
         and s = "start 1" and s' = s' and e = "Exception ''Failed to generate hook template''"
         and video_id = "''v1''" and collection_id = "''c1''" and prompt = "''bold''"]
      demo_TextContent r
    by blast
qed

end
